theory Spec2Isabelle
  imports Main
begin

section \<open>Python strings\<close>

text \<open>
  A Python \<open>str\<close> is modelled as a \<open>string\<close> whose characters are the code points
  below 256. The helpers below are the string methods that \<open>inoliblist.py\<close> calls.
\<close>

definition startswith :: "string \<Rightarrow> string \<Rightarrow> bool" where
  "startswith s p = (take (length p) s = p)"

definition endswith :: "string \<Rightarrow> string \<Rightarrow> bool" where
  "endswith s p = (length p \<le> length s \<and> drop (length s - length p) s = p)"

text \<open>\<open>s.find(sub) != -1\<close>: \<open>sub\<close> occurs somewhere in \<open>s\<close>.\<close>

fun contains :: "string \<Rightarrow> string \<Rightarrow> bool" where
  "contains [] sub = (sub = [])"
| "contains (x # xs) sub = (startswith (x # xs) sub \<or> contains xs sub)"

text \<open>
  \<open>s.split(c)\<close> for a one-character separator, and \<open>re.split("[...]", s)\<close> for a
  character class: the pieces between the separators, empty pieces included, never the
  empty list.
\<close>

fun split_where :: "(char \<Rightarrow> bool) \<Rightarrow> string \<Rightarrow> string list" where
  "split_where P [] = [[]]"
| "split_where P (x # xs) =
     (if P x then [] # split_where P xs
      else (case split_where P xs of [] \<Rightarrow> [[x]] | y # ys \<Rightarrow> (x # y) # ys))"

definition split_on :: "char \<Rightarrow> string \<Rightarrow> string list" where
  "split_on c s = split_where (\<lambda>x. x = c) s"

text \<open>\<open>s.split(c, 1)\<close>: split at the first separator only.\<close>

definition split_first :: "char \<Rightarrow> string \<Rightarrow> string list" where
  "split_first c s =
     (if c \<in> set s then [takeWhile (\<lambda>x. x \<noteq> c) s, tl (dropWhile (\<lambda>x. x \<noteq> c) s)]
      else [s])"

text \<open>White space as \<open>str.strip()\<close> sees it, among the code points below 256.\<close>

definition is_space :: "char \<Rightarrow> bool" where
  "is_space c = (c \<in> set [CHR 0x09, CHR 0x0A, CHR 0x0B, CHR 0x0C, CHR 0x0D,
                           CHR 0x1C, CHR 0x1D, CHR 0x1E, CHR 0x1F, CHR 0x20,
                           CHR 0x85, CHR 0xA0])"

definition strip :: "string \<Rightarrow> string" where
  "strip s = rev (dropWhile is_space (rev (dropWhile is_space s)))"

text \<open>
  \<open>s.replace(old, new)\<close> for a non-empty \<open>old\<close>: the occurrences are replaced from
  the left, without overlap.
\<close>

function replace :: "string \<Rightarrow> string \<Rightarrow> string \<Rightarrow> string" where
  "replace [] old new = []"
| "replace (x # xs) old new =
     (if old \<noteq> [] \<and> startswith (x # xs) old
      then new @ replace (drop (length old) (x # xs)) old new
      else x # replace xs old new)"
  by pat_completeness auto
termination
  by (relation "measure (\<lambda>(s, old, new). length s)") (auto simp: neq_Nil_conv)

text \<open>\<open>sep.join(xs)\<close> on a list of strings.\<close>

fun join :: "string \<Rightarrow> string list \<Rightarrow> string" where
  "join sep [] = []"
| "join sep [x] = x"
| "join sep (x # y # ys) = x @ sep @ join sep (y # ys)"

text \<open>
  \<open>s.splitlines()\<close>: the line boundaries are \<open>\n\<close>, \<open>\r\<close>, \<open>\r\n\<close>, \<open>\v\<close>, \<open>\f\<close>,
  \<open>\x1c\<close>, \<open>\x1d\<close>, \<open>\x1e\<close> and \<open>\x85\<close>; a final boundary opens no empty line.
\<close>

definition is_linebreak :: "char \<Rightarrow> bool" where
  "is_linebreak c = (c \<in> set [CHR 0x0A, CHR 0x0B, CHR 0x0C, CHR 0x0D,
                               CHR 0x1C, CHR 0x1D, CHR 0x1E, CHR 0x85])"

fun splitlines :: "string \<Rightarrow> string list" where
  "splitlines [] = []"
| "splitlines [x] = (if is_linebreak x then [[]] else [[x]])"
| "splitlines (x # y # ys) =
     (if x = CHR 0x0D \<and> y = CHR 0x0A then [] # splitlines ys
      else if is_linebreak x then [] # splitlines (y # ys)
      else (case splitlines (y # ys) of [] \<Rightarrow> [[x]] | l # ls \<Rightarrow> (x # l) # ls))"

text \<open>\<open>str(n)\<close> for an integer: its decimal digits.\<close>

definition digit_char :: "nat \<Rightarrow> char" where
  "digit_char d = ''0123456789'' ! (d mod 10)"

fun str_nat :: "nat \<Rightarrow> string" where
  "str_nat n = (if n < 10 then [digit_char n] else str_nat (n div 10) @ [digit_char (n mod 10)])"

definition str_int :: "int \<Rightarrow> string" where
  "str_int i = (if i < 0 then CHR ''-'' # str_nat (nat (- i)) else str_nat (nat i))"

section \<open>Python values and exceptions\<close>

text \<open>
  The values \<open>json.loads\<close> returns. JSON numbers are taken to be integers; an object is
  the decoded \<open>dict\<close> as its list of items, keys distinct.
\<close>

datatype json =
    JNull
  | JBool bool
  | JInt int
  | JStr string
  | JArr "json list"
  | JObj "(string \<times> json) list"

text \<open>The exceptions the program can meet; \<open>HTTPError\<close> carries \<open>code\<close> and \<open>msg\<close>.\<close>

datatype error =
    HTTPError nat string
  | JSONDecodeError
  | TimeoutError
  | KeyError
  | TypeError
  | ValueError
  | AttributeError
  | IndexError

text \<open>\<open>str(exception)\<close> of a \<open>urllib.error.HTTPError\<close>: \<open>'HTTP Error %s: %s' % (code, msg)\<close>.\<close>

definition str_http_error :: "nat \<Rightarrow> string \<Rightarrow> string" where
  "str_http_error code msg = ''HTTP Error '' @ str_nat code @ '': '' @ msg"

text \<open>\<open>x[k]\<close> for a string key \<open>k\<close>: only a \<open>dict\<close> can be subscripted so.\<close>

fun getitem :: "json \<Rightarrow> string \<Rightarrow> error + json" where
  "getitem (JObj kvs) k = (case map_of kvs k of None \<Rightarrow> Inl KeyError | Some v \<Rightarrow> Inr v)"
| "getitem _ k = Inl TypeError"

text \<open>\<open>not x\<close> is true of \<open>None\<close>, \<open>False\<close>, \<open>0\<close> and the empty string, list and dict.\<close>

fun truthy :: "json \<Rightarrow> bool" where
  "truthy JNull = False"
| "truthy (JBool b) = b"
| "truthy (JInt i) = (i \<noteq> 0)"
| "truthy (JStr s) = (s \<noteq> [])"
| "truthy (JArr xs) = (xs \<noteq> [])"
| "truthy (JObj kvs) = (kvs \<noteq> [])"

text \<open>\<open>x == 0\<close>: Python's \<open>False\<close> equals \<open>0\<close> as well.\<close>

fun py_eq_zero :: "json \<Rightarrow> bool" where
  "py_eq_zero (JInt i) = (i = 0)"
| "py_eq_zero (JBool b) = (\<not> b)"
| "py_eq_zero _ = False"

text \<open>The number a value stands for in a comparison with a time stamp.\<close>

fun py_number :: "json \<Rightarrow> int option" where
  "py_number (JInt i) = Some i"
| "py_number (JBool b) = Some (if b then 1 else 0)"
| "py_number _ = None"

text \<open>\<open>list(x)\<close>: the items of a list, the keys of a dict, the characters of a string.\<close>

fun py_list :: "json \<Rightarrow> error + json list" where
  "py_list (JArr xs) = Inr xs"
| "py_list (JObj kvs) = Inr (map (\<lambda>kv. JStr (fst kv)) kvs)"
| "py_list (JStr s) = Inr (map (\<lambda>c. JStr [c]) s)"
| "py_list _ = Inl TypeError"

text \<open>
  \<open>dict(x)\<close>, as far as string keys go (every lookup of the program uses a string key).
  A dict is copied; a sequence must hold pairs: lists of length two with a hashable key,
  strings of two characters, dicts of two keys. A later pair overrides an earlier one, so
  the pairs are returned latest first for \<open>map_of\<close>.
\<close>

fun hashable :: "json \<Rightarrow> bool" where
  "hashable (JArr xs) = False"
| "hashable (JObj kvs) = False"
| "hashable _ = True"

fun dict_item :: "json \<Rightarrow> error + (json \<times> json)" where
  "dict_item (JArr [k, v]) = (if hashable k then Inr (k, v) else Inl TypeError)"
| "dict_item (JArr xs) = Inl ValueError"
| "dict_item (JStr [a, b]) = Inr (JStr [a], JStr [b])"
| "dict_item (JStr s) = Inl ValueError"
| "dict_item (JObj [(a, x), (b, y)]) = Inr (JStr a, JStr b)"
| "dict_item (JObj kvs) = Inl ValueError"
| "dict_item _ = Inl TypeError"

fun dict_items :: "json list \<Rightarrow> (string \<times> json) list \<Rightarrow> error + (string \<times> json) list" where
  "dict_items [] acc = Inr acc"
| "dict_items (x # xs) acc =
     (case dict_item x of
        Inl e \<Rightarrow> Inl e
      | Inr (JStr k, v) \<Rightarrow> dict_items xs ((k, v) # acc)
      | Inr (_, v) \<Rightarrow> dict_items xs acc)"

fun py_dict :: "json \<Rightarrow> error + (string \<times> json) list" where
  "py_dict (JObj kvs) = Inr kvs"
| "py_dict (JArr xs) = dict_items xs []"
| "py_dict (JStr s) = dict_items (map (\<lambda>c. JStr [c]) s) []"
| "py_dict _ = Inl TypeError"

definition dict_get :: "(string \<times> json) list \<Rightarrow> string \<Rightarrow> error + json" where
  "dict_get d k = (case map_of d k of None \<Rightarrow> Inl KeyError | Some v \<Rightarrow> Inr v)"

text \<open>
  \<open>repr\<close> of a string: single quotes, unless the string holds a single quote and no
  double quote; the quote, the backslash and the unprintable characters are escaped.
\<close>

definition hex_char :: "nat \<Rightarrow> char" where
  "hex_char d = ''0123456789abcdef'' ! (d mod 16)"

definition printable :: "char \<Rightarrow> bool" where
  "printable c = (let n = (of_char c :: nat) in (32 \<le> n \<and> n < 127) \<or> (161 \<le> n \<and> n \<noteq> 173))"

definition repr_char :: "char \<Rightarrow> char \<Rightarrow> string" where
  "repr_char q c =
     (if c = q \<or> c = CHR 0x5C then [CHR 0x5C, c]
      else if c = CHR 0x09 then [CHR 0x5C, CHR ''t'']
      else if c = CHR 0x0A then [CHR 0x5C, CHR ''n'']
      else if c = CHR 0x0D then [CHR 0x5C, CHR ''r'']
      else if printable c then [c]
      else [CHR 0x5C, CHR ''x'', hex_char (of_char c div 16), hex_char (of_char c mod 16)])"

definition repr_str :: "string \<Rightarrow> string" where
  "repr_str s =
     (let q = (if CHR 0x27 \<in> set s \<and> CHR 0x22 \<notin> set s then CHR 0x22 else CHR 0x27)
      in q # concat (map (repr_char q) s) @ [q])"

fun py_repr :: "json \<Rightarrow> string" where
  "py_repr JNull = ''None''"
| "py_repr (JBool b) = (if b then ''True'' else ''False'')"
| "py_repr (JInt i) = str_int i"
| "py_repr (JStr s) = repr_str s"
| "py_repr (JArr xs) = ''['' @ join '', '' (map py_repr xs) @ '']''"
| "py_repr (JObj kvs) =
     ''{'' @ join '', '' (map (\<lambda>(k, v). repr_str k @ '': '' @ py_repr v) kvs) @ ''}''"

text \<open>\<open>str(x)\<close>: a string is itself, any other value prints as its \<open>repr\<close>.\<close>

fun py_str :: "json \<Rightarrow> string" where
  "py_str (JStr s) = s"
| "py_str v = py_repr v"

section \<open>The world outside: HTTP and urllib\<close>

text \<open>
  What \<open>urllib.request.urlopen\<close> gives back: an \<open>HTTPError\<close> with its code and message,
  or a response. Of a response the program reads the body text, the value
  \<open>json.loads\<close> makes of it (\<open>None\<close> when it raises \<open>JSONDecodeError\<close>), the \<open>Link\<close> header
  and the integer in the \<open>X-RateLimit-Remaining\<close> header.
\<close>

record reply =
  content :: string
  decoded :: "json option"
  link_header :: "string option"
  ratelimit_remaining_header :: "int option"

datatype response = Failure nat string | Success reply

text \<open>
  The world is a parameter of every function that performs a request: the answer to a
  URL may depend on how many requests the run has made before it, and the three
  functions of \<open>urllib.parse\<close> that \<open>normalize_url\<close> calls are taken as they are
  (\<open>quote\<close> with \<open>safe="&=?/+"\<close>).
\<close>

record world =
  urlopen :: "string \<Rightarrow> nat \<Rightarrow> response"
  urlparse :: "string \<Rightarrow> string list"
  quote :: "string \<Rightarrow> string"
  urlunparse :: "string list \<Rightarrow> string"

datatype api_type = Search | Core

text \<open>
  The global variables (\<open>table\<close>, \<open>last_api_requests_remaining_value\<close>), the URLs
  opened so far, the wall clock in seconds and the calls of \<open>logger.warning\<close>.
\<close>

record state =
  table :: "json list list"
  last_api_requests_remaining_value :: "api_type \<Rightarrow> json"
  requests :: "string list"
  clock :: int
  warnings :: "string list"

type_synonym 'a result = "(error + 'a) \<times> state"

record fetch_result =
  json_data :: json
  additional_pages :: bool
  page_count :: json

section \<open>Configuration\<close>

definition minutes_between_timeout_notifications :: int where
  "minutes_between_timeout_notifications = 5"

definition urlopen_retry_on_http_error :: "string list" where
  "urlopen_retry_on_http_error = [''403'', ''502'', ''503'']"

definition urlopen_retry_delay :: int where
  "urlopen_retry_delay = 60"

definition urlopen_maximum_retries :: nat where
  "urlopen_maximum_retries = 5"

definition results_per_page :: nat where
  "results_per_page = 100"

section \<open>The resilient fetcher\<close>

definition normalize_url :: "world \<Rightarrow> string \<Rightarrow> string" where
  "normalize_url w url =
     urlunparse w
       (map (\<lambda>url_part. quote w (replace (replace url_part ''///'' ''/'') ''//'' ''/''))
          (urlparse w url))"

text \<open>One call of \<open>urlopen\<close>: the world answers, and the URL joins the log.\<close>

definition do_urlopen :: "world \<Rightarrow> string \<Rightarrow> state \<Rightarrow> response \<times> state" where
  "do_urlopen w url s =
     (urlopen w url (length (requests s)), s\<lparr>requests := requests s @ [url]\<rparr>)"

text \<open>\<open>time.sleep(seconds)\<close>.\<close>

definition sleep :: "int \<Rightarrow> state \<Rightarrow> state" where
  "sleep seconds s = s\<lparr>clock := clock s + seconds\<rparr>"

definition determine_urlopen_retry :: "nat \<Rightarrow> string \<Rightarrow> state \<Rightarrow> bool \<times> state" where
  "determine_urlopen_retry code msg s =
     (if list_ex (\<lambda>error_code. startswith (str_http_error code msg) (''HTTP Error '' @ error_code))
           urlopen_retry_on_http_error
      then (True, sleep urlopen_retry_delay s)
      else (False, s))"

text \<open>
  The page count read from one element of the \<open>Link\<close> header: of the element that ends
  in \<open>>; rel="last"\<close>, the text after \<open>page=\<close> of its last such parameter. It is stored as
  the string it is.
\<close>

definition link_page_count :: "string \<Rightarrow> json \<Rightarrow> json" where
  "link_page_count link_text page_count0 =
     (if drop (length link_text - 13) link_text = ''>; rel=\"last\"''
      then foldl (\<lambda>pc parameter.
                    if take 5 parameter = ''page='' then JStr (split_on CHR ''='' parameter ! 1)
                    else pc)
             page_count0 (split_where (\<lambda>c. c \<in> set ''?&>'') link_text)
      else page_count0)"

definition header_page_count :: "string \<Rightarrow> json" where
  "header_page_count l =
     foldl (\<lambda>pc link_text. link_page_count link_text pc) (JInt 1) (split_on CHR '','' l)"

definition read_pages :: "json \<Rightarrow> reply \<Rightarrow> fetch_result" where
  "read_pages jd r =
     (if \<not> truthy jd
      then \<lparr>json_data = jd, additional_pages = False, page_count = JInt 0\<rparr>
      else (case link_header r of
              None \<Rightarrow> \<lparr>json_data = jd, additional_pages = False, page_count = JInt 1\<rparr>
            | Some l \<Rightarrow> \<lparr>json_data = jd,
                          additional_pages = contains l ''>; rel=\"next\"'',
                          page_count = header_page_count l\<rparr>))"

text \<open>The push of the quota header into the cache, after a response of the API.\<close>

definition note_rate_limit :: "string \<Rightarrow> reply \<Rightarrow> state \<Rightarrow> state" where
  "note_rate_limit url r s =
     (case ratelimit_remaining_header r of
        None \<Rightarrow> s
      | Some n \<Rightarrow>
          if startswith url ''https://api.github.com''
          then (if startswith url ''https://api.github.com/search''
                then s\<lparr>last_api_requests_remaining_value :=
                         (last_api_requests_remaining_value s)(Search := JInt n)\<rparr>
                else s\<lparr>last_api_requests_remaining_value :=
                         (last_api_requests_remaining_value s)(Core := JInt n)\<rparr>)
          else s)"

text \<open>
  The loop of \<open>get_json_from_url\<close>; \<open>retry_count\<close> is its value at the loop test. The
  request headers (media type, token) do not reach the program's decisions and are left
  out.
\<close>

function get_json_from_url_loop :: "world \<Rightarrow> string \<Rightarrow> nat \<Rightarrow> state \<Rightarrow> fetch_result result" where
  "get_json_from_url_loop w url retry_count s =
     (if retry_count \<le> urlopen_maximum_retries
      then (case do_urlopen w url s of
              (Success r, s1) \<Rightarrow>
                (case decoded r of
                   None \<Rightarrow> (Inl JSONDecodeError, s1)
                 | Some jd \<Rightarrow> (Inr (read_pages jd r), note_rate_limit url r s1))
            | (Failure code msg, s1) \<Rightarrow>
                (if fst (determine_urlopen_retry code msg s1)
                 then get_json_from_url_loop w url (retry_count + 1)
                        (snd (determine_urlopen_retry code msg s1))
                 else (Inl (HTTPError code msg), snd (determine_urlopen_retry code msg s1))))
      else (Inl TimeoutError, s))"
  by pat_completeness auto
termination
  by (relation "measure (\<lambda>(w, url, retry_count, s). Suc urlopen_maximum_retries - retry_count)") auto

definition get_json_from_url :: "world \<Rightarrow> string \<Rightarrow> state \<Rightarrow> fetch_result result" where
  "get_json_from_url w url s = get_json_from_url_loop w (normalize_url w url) 0 s"

section \<open>The rate limiter\<close>

definition api_name :: "api_type \<Rightarrow> string" where
  "api_name a = (case a of Search \<Rightarrow> ''search'' | Core \<Rightarrow> ''core'')"

text \<open>\<open>json_data["resources"][api_type][field]\<close>.\<close>

definition rate_limit_field :: "(string \<times> json) list \<Rightarrow> api_type \<Rightarrow> string \<Rightarrow> error + json" where
  "rate_limit_field d a field =
     (case dict_get d ''resources'' of
        Inl e \<Rightarrow> Inl e
      | Inr resources \<Rightarrow>
          (case getitem resources (api_name a) of
             Inl e \<Rightarrow> Inl e
           | Inr pool \<Rightarrow> getitem pool field))"

text \<open>
  The wait \<open>while time.time() < rate_limiting_reset_time\<close> ends when the clock has
  reached the reset time; the comparison needs a number.
\<close>

definition wait_until :: "json \<Rightarrow> state \<Rightarrow> unit result" where
  "wait_until reset_time s =
     (case py_number reset_time of
        None \<Rightarrow> (Inl TypeError, s)
      | Some t \<Rightarrow> (Inr (), s\<lparr>clock := max (clock s) t\<rparr>))"

definition check_rate_limiting :: "world \<Rightarrow> api_type \<Rightarrow> state \<Rightarrow> unit result" where
  "check_rate_limiting w a s =
     (if py_eq_zero (last_api_requests_remaining_value s a)
      then (case get_json_from_url w ''https://api.github.com/rate_limit'' s of
              (Inl e, s1) \<Rightarrow> (Inl e, s1)
            | (Inr r, s1) \<Rightarrow>
                (case py_dict (json_data r) of
                   Inl e \<Rightarrow> (Inl e, s1)
                 | Inr d \<Rightarrow>
                     (case rate_limit_field d a ''remaining'' of
                        Inl e \<Rightarrow> (Inl e, s1)
                      | Inr remaining \<Rightarrow>
                          (let s2 = s1\<lparr>last_api_requests_remaining_value :=
                                         (last_api_requests_remaining_value s1)(a := remaining)\<rparr>
                           in case rate_limit_field d a ''reset'' of
                                Inl e \<Rightarrow> (Inl e, s2)
                              | Inr rate_limiting_reset_time \<Rightarrow>
                                  (case rate_limit_field d a ''limit'' of
                                     Inl e \<Rightarrow> (Inl e, s2)
                                   | Inr limit \<Rightarrow>
                                       if py_eq_zero (last_api_requests_remaining_value s2 a)
                                       then wait_until rate_limiting_reset_time s2
                                       else (Inr (), s2))))))
      else (Inr (), s))"

definition get_github_api_response ::
    "world \<Rightarrow> string \<Rightarrow> string \<Rightarrow> nat \<Rightarrow> state \<Rightarrow> fetch_result result" where
  "get_github_api_response w request request_parameters page_number s =
     (case check_rate_limiting w (if startswith request ''search'' then Search else Core) s of
        (Inl e, s1) \<Rightarrow> (Inl e, s1)
      | (Inr u, s1) \<Rightarrow>
          get_json_from_url w
            (''https://api.github.com/'' @ request @ ''?'' @ request_parameters @
             ''&page='' @ str_nat page_number @ ''&per_page='' @ str_nat results_per_page) s1)"

section \<open>The catalog's columns\<close>

text \<open>The indexes \<open>enum.auto()\<close> gives the members of \<open>ColumnEnum\<close>, from 0.\<close>

definition Column_repository_url :: nat where
  "Column_repository_url = 0"

definition Column_repository_owner :: nat where
  "Column_repository_owner = 1"

definition Column_repository_name :: nat where
  "Column_repository_name = 2"

definition Column_repository_default_branch :: nat where
  "Column_repository_default_branch = 3"

definition Column_library_path :: nat where
  "Column_library_path = 4"

definition Column_archived :: nat where
  "Column_archived = 5"

definition Column_is_fork :: nat where
  "Column_is_fork = 6"

definition Column_last_push_date :: nat where
  "Column_last_push_date = 7"

definition Column_fork_count :: nat where
  "Column_fork_count = 8"

definition Column_star_count :: nat where
  "Column_star_count = 9"

definition Column_contributor_count :: nat where
  "Column_contributor_count = 10"

definition Column_repository_license :: nat where
  "Column_repository_license = 11"

definition Column_repository_language :: nat where
  "Column_repository_language = 12"

definition Column_repository_description :: nat where
  "Column_repository_description = 13"

definition Column_github_topics :: nat where
  "Column_github_topics = 14"

definition Column_in_library_manager_index :: nat where
  "Column_in_library_manager_index = 15"

definition Column_library_manager_name :: nat where
  "Column_library_manager_name = 16"

definition Column_library_manager_version :: nat where
  "Column_library_manager_version = 17"

definition Column_library_manager_author :: nat where
  "Column_library_manager_author = 18"

definition Column_library_manager_maintainer :: nat where
  "Column_library_manager_maintainer = 19"

definition Column_library_manager_sentence :: nat where
  "Column_library_manager_sentence = 20"

definition Column_library_manager_paragraph :: nat where
  "Column_library_manager_paragraph = 21"

definition Column_library_manager_category :: nat where
  "Column_library_manager_category = 22"

definition Column_library_manager_url :: nat where
  "Column_library_manager_url = 23"

definition Column_library_manager_architectures :: nat where
  "Column_library_manager_architectures = 24"

definition Column_platformio_name :: nat where
  "Column_platformio_name = 25"

definition Column_platformio_description :: nat where
  "Column_platformio_description = 26"

definition Column_platformio_keywords :: nat where
  "Column_platformio_keywords = 27"

definition Column_platformio_authors :: nat where
  "Column_platformio_authors = 28"

definition Column_platformio_repository :: nat where
  "Column_platformio_repository = 29"

definition Column_platformio_version :: nat where
  "Column_platformio_version = 30"

definition Column_platformio_license :: nat where
  "Column_platformio_license = 31"

definition Column_platformio_download_url :: nat where
  "Column_platformio_download_url = 32"

definition Column_platformio_homepage :: nat where
  "Column_platformio_homepage = 33"

definition Column_platformio_frameworks :: nat where
  "Column_platformio_frameworks = 34"

definition Column_platformio_platforms :: nat where
  "Column_platformio_platforms = 35"

definition Column_count :: nat where
  "Column_count = 36"

lemmas Column_defs =
  Column_repository_url_def Column_repository_owner_def Column_repository_name_def Column_repository_default_branch_def Column_library_path_def Column_archived_def Column_is_fork_def Column_last_push_date_def Column_fork_count_def Column_star_count_def Column_contributor_count_def Column_repository_license_def
  Column_repository_language_def Column_repository_description_def Column_github_topics_def Column_in_library_manager_index_def Column_library_manager_name_def Column_library_manager_version_def Column_library_manager_author_def Column_library_manager_maintainer_def Column_library_manager_sentence_def Column_library_manager_paragraph_def Column_library_manager_category_def Column_library_manager_url_def
  Column_library_manager_architectures_def Column_platformio_name_def Column_platformio_description_def Column_platformio_keywords_def Column_platformio_authors_def Column_platformio_repository_def Column_platformio_version_def Column_platformio_license_def Column_platformio_download_url_def Column_platformio_homepage_def Column_platformio_frameworks_def Column_platformio_platforms_def Column_count_def

text \<open>
  A repository object of the GitHub API, with the fields the program reads. The fields
  it only prints with \<open>str\<close> are kept as values; \<open>license\<close> is \<open>None\<close> for \<open>null\<close>, and
  holds the \<open>spdx_id\<close> otherwise (\<open>None\<close> for \<open>null\<close>).
\<close>

record repository_object =
  html_url :: string
  owner_login :: string
  repo_name :: string
  default_branch :: string
  archived :: json
  fork :: json
  pushed_at :: json
  forks_count :: json
  stargazers_count :: json
  language :: json
  description :: json
  topics :: "string list"
  license :: "string option option"

definition logger_warning :: "string \<Rightarrow> state \<Rightarrow> state" where
  "logger_warning msg s = s\<lparr>warnings := warnings s @ [msg]\<rparr>"

section \<open>The descriptor parsers\<close>

text \<open>One line of \<open>library.properties\<close>: split at the first \<open>=\<close>, nine field names.\<close>

definition parse_properties_line :: "string \<Rightarrow> json list \<Rightarrow> json list" where
  "parse_properties_line line row_list =
     (let field = split_first CHR ''='' line in
      if length field > 1
      then (let field_name = strip (field ! 0); field_value = JStr (field ! 1) in
            if field_name = ''name'' then row_list[Column_library_manager_name := field_value]
            else if field_name = ''version'' then row_list[Column_library_manager_version := field_value]
            else if field_name = ''author'' then row_list[Column_library_manager_author := field_value]
            else if field_name = ''maintainer'' then row_list[Column_library_manager_maintainer := field_value]
            else if field_name = ''sentence'' then row_list[Column_library_manager_sentence := field_value]
            else if field_name = ''paragraph'' then row_list[Column_library_manager_paragraph := field_value]
            else if field_name = ''category'' then row_list[Column_library_manager_category := field_value]
            else if field_name = ''url'' then row_list[Column_library_manager_url := field_value]
            else if field_name = ''architectures''
              then row_list[Column_library_manager_architectures := field_value]
            else row_list)
      else row_list)"

definition raw_file_url :: "repository_object \<Rightarrow> string \<Rightarrow> string \<Rightarrow> string" where
  "raw_file_url repo metadata_folder file_name =
     ''https://raw.githubusercontent.com/'' @ owner_login repo @ ''/'' @ repo_name repo @ ''/'' @
     default_branch repo @ ''/'' @ metadata_folder @ ''/'' @ file_name"

text \<open>
  The loop of \<open>parse_library_dot_properties\<close>. It returns \<open>True\<close>, \<open>False\<close>, or, when the
  loop runs out, nothing: Python's \<open>None\<close>.
\<close>

function parse_library_dot_properties_loop ::
    "world \<Rightarrow> string \<Rightarrow> repository_object \<Rightarrow> json list \<Rightarrow> nat \<Rightarrow> state
     \<Rightarrow> (json \<times> json list) \<times> state" where
  "parse_library_dot_properties_loop w metadata_folder repo row_list retry_count s =
     (if retry_count \<le> urlopen_maximum_retries
      then (case do_urlopen w (normalize_url w (raw_file_url repo metadata_folder ''library.properties'')) s of
              (Success r, s1) \<Rightarrow>
                ((JBool True,
                  foldl (\<lambda>row line. parse_properties_line line row) row_list (splitlines (content r))),
                 s1)
            | (Failure code msg, s1) \<Rightarrow>
                (if fst (determine_urlopen_retry code msg s1)
                 then parse_library_dot_properties_loop w metadata_folder repo row_list
                        (retry_count + 1) (snd (determine_urlopen_retry code msg s1))
                 else ((JBool False, row_list), snd (determine_urlopen_retry code msg s1))))
      else ((JNull, row_list), s))"
  by pat_completeness auto
termination
  by (relation "measure (\<lambda>(w, f, repo, row_list, retry_count, s).
                  Suc urlopen_maximum_retries - retry_count)") auto

definition parse_library_dot_properties ::
    "world \<Rightarrow> string \<Rightarrow> repository_object \<Rightarrow> json list \<Rightarrow> state \<Rightarrow> (json \<times> json list) \<times> state" where
  "parse_library_dot_properties w metadata_folder repo row_list s =
     parse_library_dot_properties_loop w metadata_folder repo row_list 0 s"

text \<open>\<open>row_list[col] = str(json_data[key])\<close>; a \<open>KeyError\<close> is passed over.\<close>

definition store_str :: "(string \<times> json) list \<Rightarrow> string \<Rightarrow> nat \<Rightarrow> json list \<Rightarrow> json list" where
  "store_str d key col row_list =
     (case dict_get d key of Inl e \<Rightarrow> row_list | Inr v \<Rightarrow> row_list[col := JStr (py_str v)])"

text \<open>\<open>str(json_data["repository"]["url"])\<close>: a \<open>TypeError\<close> is caught with a warning.\<close>

definition store_repository ::
    "(string \<times> json) list \<Rightarrow> repository_object \<Rightarrow> json list \<Rightarrow> state \<Rightarrow> json list \<times> state" where
  "store_repository d repo row_list s =
     (case dict_get d ''repository'' of
        Inl e \<Rightarrow> (row_list, s)
      | Inr rp \<Rightarrow>
          (case getitem rp ''url'' of
             Inr v \<Rightarrow> (row_list[Column_platformio_repository := JStr (py_str v)], s)
           | Inl KeyError \<Rightarrow> (row_list, s)
           | Inl e \<Rightarrow>
               (row_list,
                logger_warning (''Can't handle type of library.json repository field for '' @
                                html_url repo) s)))"

text \<open>The generator \<open>author["name"] for author in json_data["authors"]\<close>, made a list.\<close>

fun author_names :: "json list \<Rightarrow> error + json list" where
  "author_names [] = Inr []"
| "author_names (author # authors) =
     (case getitem author ''name'' of
        Inl e \<Rightarrow> Inl e
      | Inr n \<Rightarrow> (case author_names authors of Inl e \<Rightarrow> Inl e | Inr ns \<Rightarrow> Inr (n # ns)))"

text \<open>\<open>", ".join(xs)\<close> raises \<open>TypeError\<close> unless every item is a string.\<close>

fun strings_of :: "json list \<Rightarrow> string list option" where
  "strings_of [] = Some []"
| "strings_of (JStr x # xs) = (case strings_of xs of None \<Rightarrow> None | Some ys \<Rightarrow> Some (x # ys))"
| "strings_of (v # xs) = None"

definition join_values :: "json list \<Rightarrow> error + json" where
  "join_values xs = (case strings_of xs of None \<Rightarrow> Inl TypeError | Some ys \<Rightarrow> Inr (JStr (join '', '' ys)))"

text \<open>The \<open>authors\<close> field: a list of objects, one object, or a string; only \<open>KeyError\<close> is caught.\<close>

definition store_authors ::
    "(string \<times> json) list \<Rightarrow> repository_object \<Rightarrow> json list \<Rightarrow> state \<Rightarrow> json list result" where
  "store_authors d repo row_list s =
     (case dict_get d ''authors'' of
        Inl e \<Rightarrow> (Inr row_list, s)
      | Inr (JArr authors) \<Rightarrow>
          (case author_names authors of
             Inl KeyError \<Rightarrow> (Inr row_list, s)
           | Inl e \<Rightarrow> (Inl e, s)
           | Inr ns \<Rightarrow>
               (case join_values ns of
                  Inl e \<Rightarrow> (Inl e, s)
                | Inr v \<Rightarrow> (Inr (row_list[Column_platformio_authors := v]), s)))
      | Inr (JObj kvs) \<Rightarrow>
          (case getitem (JObj kvs) ''name'' of
             Inl e \<Rightarrow> (Inr row_list, s)
           | Inr v \<Rightarrow> (Inr (row_list[Column_platformio_authors := v]), s))
      | Inr (JStr a) \<Rightarrow> (Inr (row_list[Column_platformio_authors := JStr a]), s)
      | Inr v \<Rightarrow>
          (Inr row_list,
           logger_warning (''Can't handle type of library.json authors field for '' @ html_url repo) s))"

text \<open>The \<open>frameworks\<close> and \<open>platforms\<close> fields: a list of strings, or a string.\<close>

definition store_list_or_str ::
    "(string \<times> json) list \<Rightarrow> string \<Rightarrow> nat \<Rightarrow> repository_object \<Rightarrow> json list \<Rightarrow> state
     \<Rightarrow> json list result" where
  "store_list_or_str d key col repo row_list s =
     (case dict_get d key of
        Inl e \<Rightarrow> (Inr row_list, s)
      | Inr (JArr xs) \<Rightarrow>
          (case join_values xs of
             Inl e \<Rightarrow> (Inl e, s)
           | Inr v \<Rightarrow> (Inr (row_list[col := v]), s))
      | Inr (JStr a) \<Rightarrow> (Inr (row_list[col := JStr a]), s)
      | Inr v \<Rightarrow>
          (Inr row_list,
           logger_warning (''Couldn't parse library.json '' @ key @ '' field for '' @ html_url repo) s))"

text \<open>The body of \<open>parse_library_dot_json\<close> after the file is fetched and decoded.\<close>

definition fill_from_library_json ::
    "(string \<times> json) list \<Rightarrow> repository_object \<Rightarrow> json list \<Rightarrow> state \<Rightarrow> json list result" where
  "fill_from_library_json d repo row_list s =
     (let row1 = store_str d ''name'' Column_platformio_name row_list;
          row2 = store_str d ''description'' Column_platformio_description row1;
          row3 = store_str d ''keywords'' Column_platformio_keywords row2
      in case store_authors d repo row3 s of
           (Inl e, s1) \<Rightarrow> (Inl e, s1)
         | (Inr row4, s1) \<Rightarrow>
             (case store_repository d repo row4 s1 of
                (row5, s2) \<Rightarrow>
                  (let row6 = store_str d ''version'' Column_platformio_version row5;
                       row7 = store_str d ''license'' Column_platformio_license row6;
                       row8 = store_str d ''downloadUrl'' Column_platformio_download_url row7;
                       row9 = store_str d ''homepage'' Column_platformio_homepage row8
                   in case store_list_or_str d ''frameworks'' Column_platformio_frameworks repo row9 s2 of
                        (Inl e, s3) \<Rightarrow> (Inl e, s3)
                      | (Inr row10, s3) \<Rightarrow>
                          store_list_or_str d ''platforms'' Column_platformio_platforms repo row10 s3)))"

definition parse_library_dot_json ::
    "world \<Rightarrow> string \<Rightarrow> repository_object \<Rightarrow> json list \<Rightarrow> state \<Rightarrow> (bool \<times> json list) result" where
  "parse_library_dot_json w metadata_folder repo row_list s =
     (case get_json_from_url w (raw_file_url repo metadata_folder ''library.json'') s of
        (Inl JSONDecodeError, s1) \<Rightarrow>
          (Inr (True, row_list),
           logger_warning (''Unable to decode JSON of: '' @
                           raw_file_url repo metadata_folder ''library.json'') s1)
      | (Inl (HTTPError code msg), s1) \<Rightarrow> (Inr (False, row_list), s1)
      | (Inl TimeoutError, s1) \<Rightarrow> (Inr (False, row_list), s1)
      | (Inl e, s1) \<Rightarrow> (Inl e, s1)
      | (Inr r, s1) \<Rightarrow>
          (case py_dict (json_data r) of
             Inl e \<Rightarrow> (Inl e, s1)
           | Inr d \<Rightarrow>
               (case fill_from_library_json d repo row_list s1 of
                  (Inl e, s2) \<Rightarrow> (Inl e, s2)
                | (Inr row', s2) \<Rightarrow> (Inr (True, row'), s2))))"

section \<open>The library locator\<close>

text \<open>
  The tests on one entry of a directory listing, with Python's short-circuit order: the
  name is read only when the type matches; \<open>.split\<close> and \<open>.endswith\<close> need a string.
\<close>

definition is_header_file :: "json \<Rightarrow> error + bool" where
  "is_header_file item =
     (case getitem item ''type'' of
        Inl e \<Rightarrow> Inl e
      | Inr t \<Rightarrow>
          if t = JStr ''file''
          then (case getitem item ''name'' of
                  Inl e \<Rightarrow> Inl e
                | Inr (JStr n) \<Rightarrow>
                    Inr (length (split_on CHR ''.'' n) > 1 \<and>
                         (endswith n ''.h'' \<or> endswith n ''.hh'' \<or> endswith n ''.hpp''))
                | Inr v \<Rightarrow> Inl AttributeError)
          else Inr False)"

definition is_sketch_file :: "json \<Rightarrow> error + bool" where
  "is_sketch_file item =
     (case getitem item ''type'' of
        Inl e \<Rightarrow> Inl e
      | Inr t \<Rightarrow>
          if t = JStr ''file''
          then (case getitem item ''name'' of
                  Inl e \<Rightarrow> Inl e
                | Inr (JStr n) \<Rightarrow>
                    Inr (length (split_on CHR ''.'' n) > 1 \<and>
                         (endswith n ''.ino'' \<or> endswith n ''.pde''))
                | Inr v \<Rightarrow> Inl AttributeError)
          else Inr False)"

definition is_examples_folder :: "json \<Rightarrow> error + bool" where
  "is_examples_folder item =
     (case getitem item ''type'' of
        Inl e \<Rightarrow> Inl e
      | Inr t \<Rightarrow>
          if t = JStr ''dir''
          then (case getitem item ''name'' of
                  Inl e \<Rightarrow> Inl e
                | Inr n \<Rightarrow>
                    Inr (n = JStr ''examples'' \<or> n = JStr ''example'' \<or> n = JStr ''Examples'' \<or>
                         n = JStr ''Example'' \<or> n = JStr ''EXAMPLES'' \<or> n = JStr ''EXAMPLE''))
          else Inr False)"

text \<open>
  The first \<open>for\<close> loop over a page of the root listing; the flags are
  \<open>header_file_in_root\<close>, \<open>sketch_file_in_root\<close> and \<open>examples_folder_in_root\<close>.
\<close>

fun scan_root_listing :: "bool \<Rightarrow> json list \<Rightarrow> bool \<times> bool \<times> bool \<Rightarrow> error + (bool \<times> bool \<times> bool)" where
  "scan_root_listing verify [] flags = Inr flags"
| "scan_root_listing verify (item # items) (h, sk, ex) =
     (case is_header_file item of
        Inl e \<Rightarrow> Inl e
      | Inr hf \<Rightarrow>
          if verify
          then (case is_sketch_file item of
                  Inl e \<Rightarrow> Inl e
                | Inr sf \<Rightarrow>
                    if sf then scan_root_listing verify items (h \<or> hf, True, ex)
                    else (case is_examples_folder item of
                            Inl e \<Rightarrow> Inl e
                          | Inr ef \<Rightarrow> scan_root_listing verify items (h \<or> hf, sk, ex \<or> ef)))
          else scan_root_listing verify items (h \<or> hf, sk, ex))"

text \<open>\<open>item["type"] == "file" and item["name"] == file_name\<close>.\<close>

definition is_file_named :: "json \<Rightarrow> string \<Rightarrow> error + bool" where
  "is_file_named item file_name =
     (case getitem item ''type'' of
        Inl e \<Rightarrow> Inl e
      | Inr t \<Rightarrow>
          if t = JStr ''file''
          then (case getitem item ''name'' of Inl e \<Rightarrow> Inl e | Inr n \<Rightarrow> Inr (n = JStr file_name))
          else Inr False)"

text \<open>
  The \<open>for\<close> loop over a page of a subfolder's listing: a header file or a descriptor
  file makes the subfolder the library folder, and a descriptor file is parsed.
\<close>

fun scan_subdirectory_listing ::
    "world \<Rightarrow> repository_object \<Rightarrow> string \<Rightarrow> json list \<Rightarrow> string option \<Rightarrow> json list \<Rightarrow> state
     \<Rightarrow> (string option \<times> json list) result" where
  "scan_subdirectory_listing w repo folder [] library_folder row_list s =
     (Inr (library_folder, row_list), s)"
| "scan_subdirectory_listing w repo folder (item # items) library_folder row_list s =
     (case is_header_file item of
        Inl e \<Rightarrow> (Inl e, s)
      | Inr hf \<Rightarrow>
          if hf then scan_subdirectory_listing w repo folder items (Some folder) row_list s
          else (case is_file_named item ''library.properties'' of
                  Inl e \<Rightarrow> (Inl e, s)
                | Inr pf \<Rightarrow>
                    if pf
                    then (case parse_library_dot_properties w folder repo row_list s of
                            ((found, row1), s1) \<Rightarrow>
                              scan_subdirectory_listing w repo folder items (Some folder) row1 s1)
                    else (case is_file_named item ''library.json'' of
                            Inl e \<Rightarrow> (Inl e, s)
                          | Inr jf \<Rightarrow>
                              if jf
                              then (case parse_library_dot_json w folder repo row_list s of
                                      (Inl e, s1) \<Rightarrow> (Inl e, s1)
                                    | (Inr (found, row1), s1) \<Rightarrow>
                                        scan_subdirectory_listing w repo folder items (Some folder) row1 s1)
                              else scan_subdirectory_listing w repo folder items library_folder row_list s)))"

text \<open>
  How the scan of subfolders leaves its loops: by \<open>return library_folder\<close>, or at the end of
  a loop with the values \<open>page_number\<close> and \<open>additional_pages\<close> then have. The root loop
  and the subfolder loops share these two variables.
\<close>

datatype scan_exit = Found string | Unfound nat bool

definition contents_request :: "repository_object \<Rightarrow> string" where
  "contents_request repo = ''repos/'' @ owner_login repo @ ''/'' @ repo_name repo @ ''/contents''"

text \<open>
  The \<open>while additional_pages\<close> loop over the pages of one subfolder. The three
  exceptions of a failed request are caught: \<open>break\<close>. The loop ends only if the server
  stops announcing further pages, so the result is an option.
\<close>

partial_function (option) scan_subfolder ::
    "world \<Rightarrow> repository_object \<Rightarrow> string \<Rightarrow> nat \<Rightarrow> json list \<Rightarrow> state
     \<Rightarrow> (scan_exit \<times> json list) result option" where
  "scan_subfolder w repo folder page_number row_list s =
     (case get_github_api_response w (contents_request repo @ ''/'' @ folder) [] page_number s of
        (Inl JSONDecodeError, s1) \<Rightarrow>
          Some (Inr (Unfound page_number True, row_list),
                logger_warning (''Something went wrong during API request for contents of '' @ folder @
                                '' folder. Moving on to the next folder...'') s1)
      | (Inl (HTTPError code msg), s1) \<Rightarrow>
          Some (Inr (Unfound page_number True, row_list),
                logger_warning (''Something went wrong during API request for contents of '' @ folder @
                                '' folder. Moving on to the next folder...'') s1)
      | (Inl TimeoutError, s1) \<Rightarrow>
          Some (Inr (Unfound page_number True, row_list),
                logger_warning (''Something went wrong during API request for contents of '' @ folder @
                                '' folder. Moving on to the next folder...'') s1)
      | (Inl e, s1) \<Rightarrow> Some (Inl e, s1)
      | (Inr r, s1) \<Rightarrow>
          (case py_list (json_data r) of
             Inl e \<Rightarrow> Some (Inl e, s1)
           | Inr subdirectory_listing \<Rightarrow>
               (case scan_subdirectory_listing w repo folder subdirectory_listing None row_list s1 of
                  (Inl e, s2) \<Rightarrow> Some (Inl e, s2)
                | (Inr (Some library_folder, row1), s2) \<Rightarrow> Some (Inr (Found library_folder, row1), s2)
                | (Inr (None, row1), s2) \<Rightarrow>
                    if additional_pages r
                    then scan_subfolder w repo folder (page_number + 1) row1 s2
                    else Some (Inr (Unfound (page_number + 1) False, row1), s2))))"

text \<open>
  \<open>item["type"] == "dir" and item["name"][0] != '.'\<close>, then the name as the string the
  request is built from.
\<close>

definition visible_folder :: "json \<Rightarrow> error + string option" where
  "visible_folder item =
     (case getitem item ''type'' of
        Inl e \<Rightarrow> Inl e
      | Inr t \<Rightarrow>
          if t = JStr ''dir''
          then (case getitem item ''name'' of
                  Inl e \<Rightarrow> Inl e
                | Inr (JStr []) \<Rightarrow> Inl IndexError
                | Inr (JStr (c # cs)) \<Rightarrow> if c \<noteq> CHR ''.'' then Inr (Some (c # cs)) else Inr None
                | Inr (JArr []) \<Rightarrow> Inl IndexError
                | Inr (JArr (x # xs)) \<Rightarrow> if x \<noteq> JStr ''.'' then Inl TypeError else Inr None
                | Inr (JObj kvs) \<Rightarrow> Inl KeyError
                | Inr v \<Rightarrow> Inl TypeError)
          else Inr None)"

text \<open>The second \<open>for\<close> loop over a page of the root listing: one subfolder after the other.\<close>

fun scan_subfolders ::
    "world \<Rightarrow> repository_object \<Rightarrow> json list \<Rightarrow> nat \<Rightarrow> bool \<Rightarrow> json list \<Rightarrow> state
     \<Rightarrow> (scan_exit \<times> json list) result option" where
  "scan_subfolders w repo [] page_number more_pages row_list s =
     Some (Inr (Unfound page_number more_pages, row_list), s)"
| "scan_subfolders w repo (item # items) page_number more_pages row_list s =
     (case visible_folder item of
        Inl e \<Rightarrow> Some (Inl e, s)
      | Inr None \<Rightarrow> scan_subfolders w repo items page_number more_pages row_list s
      | Inr (Some folder) \<Rightarrow>
          (case scan_subfolder w repo folder 1 row_list s of
             None \<Rightarrow> None
           | Some (Inl e, s1) \<Rightarrow> Some (Inl e, s1)
           | Some (Inr (Found library_folder, row1), s1) \<Rightarrow> Some (Inr (Found library_folder, row1), s1)
           | Some (Inr (Unfound page_number1 more_pages1, row1), s1) \<Rightarrow>
               scan_subfolders w repo items page_number1 more_pages1 row1 s1))"

text \<open>
  The \<open>while additional_pages\<close> loop over the pages of the root listing, entered when no
  descriptor file was found in the root.
\<close>

partial_function (option) scan_root ::
    "world \<Rightarrow> repository_object \<Rightarrow> bool \<Rightarrow> nat \<Rightarrow> json list \<Rightarrow> state
     \<Rightarrow> (string option \<times> json list) result option" where
  "scan_root w repo verify page_number row_list s =
     (case get_github_api_response w (contents_request repo) [] page_number s of
        (Inl (HTTPError code msg), s1) \<Rightarrow> Some (Inr (None, row_list), s1)
      | (Inl JSONDecodeError, s1) \<Rightarrow>
          Some (Inr (None, row_list),
                logger_warning ''Could not load contents API for the root folder of repo.'' s1)
      | (Inl TimeoutError, s1) \<Rightarrow>
          Some (Inr (None, row_list),
                logger_warning ''Could not load contents API for the root folder of repo.'' s1)
      | (Inl e, s1) \<Rightarrow> Some (Inl e, s1)
      | (Inr r, s1) \<Rightarrow>
          (case py_list (json_data r) of
             Inl e \<Rightarrow> Some (Inl e, s1)
           | Inr root_directory_listing \<Rightarrow>
               (case scan_root_listing verify root_directory_listing (False, False, False) of
                  Inl e \<Rightarrow> Some (Inl e, s1)
                | Inr (header_file_in_root, sketch_file_in_root, examples_folder_in_root) \<Rightarrow>
                    if verify
                    then (if \<not> header_file_in_root \<or>
                             (header_file_in_root \<and> sketch_file_in_root \<and> \<not> examples_folder_in_root)
                          then Some (Inr (None, row_list), s1)
                          else Some (Inr (Some ''/'', row_list), s1))
                    else if header_file_in_root then Some (Inr (Some ''/'', row_list), s1)
                    else (case scan_subfolders w repo root_directory_listing (page_number + 1)
                                 (additional_pages r) row_list s1 of
                            None \<Rightarrow> None
                          | Some (Inl e, s2) \<Rightarrow> Some (Inl e, s2)
                          | Some (Inr (Found library_folder, row1), s2) \<Rightarrow>
                              Some (Inr (Some library_folder, row1), s2)
                          | Some (Inr (Unfound page_number1 more_pages1, row1), s2) \<Rightarrow>
                              if more_pages1 then scan_root w repo verify page_number1 row1 s2
                              else Some (Inr (None, row1), s2)))))"

definition find_library_folder ::
    "world \<Rightarrow> repository_object \<Rightarrow> json list \<Rightarrow> bool \<Rightarrow> state
     \<Rightarrow> (string option \<times> json list) result option" where
  "find_library_folder w repo row_list verify s =
     (case parse_library_dot_properties w ''/'' repo row_list s of
        ((properties_found, row1), s1) \<Rightarrow>
          (case parse_library_dot_json w ''/'' repo row1 s1 of
             (Inl e, s2) \<Rightarrow> Some (Inl e, s2)
           | (Inr (json_found, row2), s2) \<Rightarrow>
               if truthy properties_found \<or> json_found
               then Some (Inr (Some ''/'', row2), s2)
               else scan_root w repo verify 1 row2 s2))"

section \<open>The catalog builder\<close>








section \<open>Example worlds\<close>

text \<open>
  Concrete inputs on which the functions above are evaluated: a \<open>urllib.parse\<close> that
  splits a URL into its scheme and the rest and quotes nothing, a server given as a
  function, the state at the start of a run (the table holds its heading row) and a
  repository object.
\<close>

definition example_urlparse :: "string \<Rightarrow> string list" where
  "example_urlparse u =
     (if startswith u ''https://'' then [''https'', drop 8 u]
      else if startswith u ''http://'' then [''http'', drop 7 u]
      else [[], u])"

definition example_urlunparse :: "string list \<Rightarrow> string" where
  "example_urlunparse parts =
     (case parts of
        [scheme, rest] \<Rightarrow> (if scheme = [] then rest else scheme @ ''://'' @ rest)
      | _ \<Rightarrow> concat parts)"

definition example_world :: "(string \<Rightarrow> nat \<Rightarrow> response) \<Rightarrow> world" where
  "example_world server =
     \<lparr>urlopen = server, urlparse = example_urlparse, quote = (\<lambda>part. part),
      urlunparse = example_urlunparse\<rparr>"

definition initial_state :: state where
  "initial_state =
     \<lparr>table = [replicate Column_count (JStr [])],
      last_api_requests_remaining_value = (\<lambda>a. JInt 0),
      requests = [], clock = 0, warnings = []\<rparr>"

definition example_repository :: repository_object where
  "example_repository =
     \<lparr>html_url = ''https://github.com/o/n'', owner_login = ''o'', repo_name = ''n'',
      default_branch = ''m'', archived = JBool False, fork = JBool False,
      pushed_at = JStr ''2018-06-01T00:00:00Z'', forks_count = JInt 0, stargazers_count = JInt 0,
      language = JStr ''C++'', description = JNull, topics = [], license = None\<rparr>"

text \<open>A \<open>Link\<close> header of the GitHub API on the first of 34 pages.\<close>

definition example_link_header :: string where
  "example_link_header =
     ''<https://api.github.com/repositories/1/contributors?per_page=1&page=2>; rel=\"next\", <https://api.github.com/repositories/1/contributors?per_page=1&page=34>; rel=\"last\"''"

definition example_contributors_reply :: reply where
  "example_contributors_reply =
     \<lparr>content = ''[{}]'', decoded = Some (JArr [JObj []]),
      link_header = Some example_link_header, ratelimit_remaining_header = None\<rparr>"

text \<open>
  An answer of \<open>https://api.github.com/rate_limit\<close> with the core pool used up, and an
  answer that carries a given JSON value as the content of \<open>library.json\<close>.
\<close>

definition example_rate_limit_reply :: reply where
  "example_rate_limit_reply =
     \<lparr>content = ''{\"resources\": {\"core\": {\"limit\": 60, \"remaining\": 0, \"reset\": 1000}}}'',
      decoded = Some (JObj [(''resources'',
                  JObj [(''core'', JObj [(''limit'', JInt 60), (''remaining'', JInt 0),
                                          (''reset'', JInt 1000)])])]),
      link_header = None, ratelimit_remaining_header = Some 59\<rparr>"

definition example_library_json_reply :: "json \<Rightarrow> reply" where
  "example_library_json_reply v =
     \<lparr>content = py_repr v, decoded = Some v, link_header = None,
      ratelimit_remaining_header = None\<rparr>"

text \<open>
  A run that has used one of its requests, a server for the listing of the repository
  root (its first page, its second page, the contributors; every other URL is absent),
  the answer that lists given entries, and an answer that is no JSON.
\<close>

definition example_running_state :: state where
  "example_running_state =
     \<lparr>table = [replicate Column_count (JStr [])],
      last_api_requests_remaining_value = (\<lambda>a. JInt 59),
      requests = [''https://api.github.com/search/repositories?q=arduino&page=1&per_page=100''],
      clock = 0, warnings = []\<rparr>"

definition example_contents_server :: "reply \<Rightarrow> response \<Rightarrow> string \<Rightarrow> nat \<Rightarrow> response" where
  "example_contents_server page1 page2 url n =
     (if url = ''https://api.github.com/repos/o/n/contents?&page=1&per_page=100'' then Success page1
      else if url = ''https://api.github.com/repos/o/n/contents?&page=2&per_page=100'' then page2
      else if url = ''https://api.github.com/repos/o/n/contributors?per_page=1''
        then Success example_contributors_reply
      else Failure 404 ''Not Found'')"

definition example_listing_reply :: "(string \<times> string) list \<Rightarrow> bool \<Rightarrow> reply" where
  "example_listing_reply entries more_pages =
     \<lparr>content = [],
      decoded = Some (JArr (map (\<lambda>e. JObj [(''type'', JStr (fst e)), (''name'', JStr (snd e))]) entries)),
      link_header = (if more_pages
                     then Some ''<https://api.github.com/repositories/1/contents?page=2>; rel=\"next\"''
                     else None),
      ratelimit_remaining_header = None\<rparr>"




section \<open>Shapes of descriptor fields\<close>

text \<open>
  A \<open>frameworks\<close> or \<open>platforms\<close> field that \<open>", ".join\<close> accepts: a list field holds
  strings only. A field that is absent or no list passes.
\<close>

definition joinable :: "(string \<times> json) list \<Rightarrow> string \<Rightarrow> bool" where
  "joinable d key =
     (case dict_get d key of
        Inr (JArr xs) \<Rightarrow> strings_of xs \<noteq> None
      | _ \<Rightarrow> True)"

section \<open>Root listings\<close>






section \<open>What a call leaves untouched\<close>

text \<open>
  A result keeps the catalog when the table is the one before the call and a returned
  row has the length of the row passed in.
\<close>

definition preserves :: "state \<Rightarrow> json list \<Rightarrow> ('a \<times> json list) result \<Rightarrow> bool" where
  "preserves s row_list res =
     (table (snd res) = table s \<and>
      (case fst res of Inl e \<Rightarrow> True | Inr out \<Rightarrow> length (snd out) = length row_list))"


section \<open>The retry loop\<close>

text \<open>
  The recursive equations of the two retry loops and of \<open>str\<close> on numbers are unfolded
  by hand, one iteration at a time.
\<close>

declare get_json_from_url_loop.simps [simp del]
declare parse_library_dot_properties_loop.simps [simp del]
declare str_nat.simps [simp del]

lemma digit_char_code: "d < 10 \<Longrightarrow> of_char (digit_char d) = 48 + d"
proof -
  assume "d < 10"
  then have "d \<in> {0,1,2,3,4,5,6,7,8,9}" by auto
  then show ?thesis by (auto simp: digit_char_def)
qed

lemma digit_char_inj: "a < 10 \<Longrightarrow> b < 10 \<Longrightarrow> digit_char a = digit_char b \<Longrightarrow> a = b"
proof -
  assume a: "a < 10" and b: "b < 10" and e: "digit_char a = digit_char b"
  have "(of_char (digit_char a) :: nat) = of_char (digit_char b)" by (simp only: e)
  then have "48 + a = 48 + b" by (simp only: digit_char_code[OF a] digit_char_code[OF b])
  then show "a = b" by (simp only: add_left_cancel)
qed

lemma str_nat_3digits:
  assumes "100 \<le> n" "n < 1000"
  shows "str_nat n = [digit_char (n div 100), digit_char (n div 10 mod 10), digit_char (n mod 10)]"
proof -
  have a: "\<not> n < 10" using assms by simp
  have b: "\<not> n div 10 < 10" using assms by simp
  have c: "n div 10 div 10 < 10" using assms by simp
  have d: "n div 10 div 10 = n div 100" by (simp add: div_mult2_eq)
  have "str_nat n = str_nat (n div 10) @ [digit_char (n mod 10)]"
    using a str_nat.simps[of n] by simp
  also have "str_nat (n div 10) = str_nat (n div 10 div 10) @ [digit_char (n div 10 mod 10)]"
    using b str_nat.simps[of "n div 10"] by simp
  also have "str_nat (n div 10 div 10) = [digit_char (n div 100)]"
    using c d str_nat.simps[of "n div 10 div 10"] by simp
  finally show ?thesis by simp
qed

lemma str_nat_retry_codes:
  "str_nat 403 = ''403''" "str_nat 502 = ''502''" "str_nat 503 = ''503''"
  by (simp_all add: str_nat.simps digit_char_def)

lemma determine_urlopen_retry_codes:
  assumes "code \<in> {403, 502, 503}"
  shows "determine_urlopen_retry code msg s = (True, sleep urlopen_retry_delay s)"
proof -
  from assms consider "code = 403" | "code = 502" | "code = 503" by blast
  then show ?thesis
    by cases
      (simp_all add: determine_urlopen_retry_def urlopen_retry_on_http_error_def str_http_error_def
        startswith_def str_nat_retry_codes)
qed

lemma dec3: "n = 10 * x + c \<Longrightarrow> x = 10 * a + b \<Longrightarrow> n = 100 * a + 10 * b + (c::nat)"
  by simp

lemma determine_urlopen_retry_other:
  assumes "100 \<le> code" "code < 1000" "code \<notin> {403, 502, 503}"
  shows "determine_urlopen_retry code msg s = (False, s)"
proof -
  have d4: "digit_char 4 = CHR ''4''" and d0: "digit_char 0 = CHR ''0''" and d3: "digit_char 3 = CHR ''3''"
    and d5: "digit_char 5 = CHR ''5''" and d2: "digit_char 2 = CHR ''2''"
    by (simp_all add: digit_char_def)
  have lt: "code div 100 < 10" "code div 10 mod 10 < 10" "code mod 10 < 10" using assms by simp_all
  have e1: "code = 10 * (code div 10) + code mod 10" by simp
  have e2: "code div 10 = 10 * (code div 10 div 10) + code div 10 mod 10" by simp
  have e3: "code div 10 div 10 = code div 100" by (simp add: div_mult2_eq)
  have dec: "code = 100 * (code div 100) + 10 * (code div 10 mod 10) + code mod 10"
    using dec3[OF e1 e2] by (simp only: e3)
  have key: "code = 100 * a + 10 * b + c"
    if "a < 10" "b < 10" "c < 10" "digit_char (code div 100) = digit_char a"
      "digit_char (code div 10 mod 10) = digit_char b" "digit_char (code mod 10) = digit_char c"
    for a b c
  proof -
    have "code div 100 = a" "code div 10 mod 10 = b" "code mod 10 = c"
      using digit_char_inj[OF lt(1) that(1) that(4)] digit_char_inj[OF lt(2) that(2) that(5)]
        digit_char_inj[OF lt(3) that(3) that(6)] by blast+
    then show ?thesis by (subst dec) (simp only:)
  qed
  have n403: "\<not> (digit_char (code div 100) = CHR ''4'' \<and> digit_char (code div 10 mod 10) = CHR ''0'' \<and> digit_char (code mod 10) = CHR ''3'')"
    using key[of 4 0 3] assms(3) unfolding d4 d0 d3 by fastforce
  have n502: "\<not> (digit_char (code div 100) = CHR ''5'' \<and> digit_char (code div 10 mod 10) = CHR ''0'' \<and> digit_char (code mod 10) = CHR ''2'')"
    using key[of 5 0 2] assms(3) unfolding d5 d0 d2 by fastforce
  have n503: "\<not> (digit_char (code div 100) = CHR ''5'' \<and> digit_char (code div 10 mod 10) = CHR ''0'' \<and> digit_char (code mod 10) = CHR ''3'')"
    using key[of 5 0 3] assms(3) unfolding d5 d0 d3 by fastforce
  have s: "str_http_error code msg =
      ''HTTP Error '' @ [digit_char (code div 100), digit_char (code div 10 mod 10), digit_char (code mod 10)] @ '': '' @ msg"
    by (simp add: str_http_error_def str_nat_3digits[OF assms(1,2)])
  show ?thesis
    using n403 n502 n503
    by (simp add: determine_urlopen_retry_def urlopen_retry_on_http_error_def s startswith_def)
qed


lemma get_json_loop_all_retry:
  "\<forall>k < Suc urlopen_maximum_retries - rc. \<exists>code msg.
       urlopen w u (length (requests s) + k) = Failure code msg \<and> code \<in> {403, 502, 503}
   \<Longrightarrow> get_json_from_url_loop w u rc s =
      (Inl TimeoutError,
       s\<lparr>requests := requests s @ replicate (Suc urlopen_maximum_retries - rc) u,
         clock := clock s + urlopen_retry_delay * int (Suc urlopen_maximum_retries - rc)\<rparr>)"
proof (induction "Suc urlopen_maximum_retries - rc" arbitrary: rc s)
  case 0
  then have "\<not> rc \<le> urlopen_maximum_retries" by simp
  then show ?case using 0 by (subst get_json_from_url_loop.simps) simp
next
  case (Suc n)
  then have le: "rc \<le> urlopen_maximum_retries" and n: "n = Suc urlopen_maximum_retries - (rc + 1)" by simp_all
  have "0 < Suc urlopen_maximum_retries - rc" using Suc.hyps(2) by simp
  from Suc.prems[rule_format, OF this] obtain code msg where
    first: "urlopen w u (length (requests s)) = Failure code msg" "code \<in> {403, 502, 503}"
    by auto
  let ?s1 = "sleep urlopen_retry_delay (s\<lparr>requests := requests s @ [u]\<rparr>)"
  have rest: "\<forall>k < Suc urlopen_maximum_retries - (rc + 1). \<exists>code msg.
       urlopen w u (length (requests ?s1) + k) = Failure code msg \<and> code \<in> {403, 502, 503}"
  proof (intro allI impI)
    fix k assume "k < Suc urlopen_maximum_retries - (rc + 1)"
    then have "Suc k < Suc urlopen_maximum_retries - rc" by simp
    from Suc.prems[rule_format, OF this]
    show "\<exists>code msg. urlopen w u (length (requests ?s1) + k) = Failure code msg \<and> code \<in> {403, 502, 503}"
      by (simp add: sleep_def)
  qed
  have step: "get_json_from_url_loop w u rc s = get_json_from_url_loop w u (rc + 1) ?s1"
    by (subst get_json_from_url_loop.simps)
       (simp add: le do_urlopen_def first determine_urlopen_retry_codes[OF first(2)])
  show ?case
    unfolding step Suc.hyps(1)[OF n rest]
    using le by (simp add: sleep_def Suc_diff_le replicate_app_Cons_same algebra_simps)
qed

lemma example_world_simps:
  "urlopen (example_world server) = server"
  "urlparse (example_world server) = example_urlparse"
  "quote (example_world server) = (\<lambda>part. part)"
  "urlunparse (example_world server) = example_urlunparse"
  by (simp_all add: example_world_def)

lemma properties_loop_all_retry:
  "\<forall>k < Suc urlopen_maximum_retries - rc. \<exists>code msg.
       urlopen w (normalize_url w (raw_file_url repo f ''library.properties'')) (length (requests s) + k)
         = Failure code msg \<and> code \<in> {403, 502, 503}
   \<Longrightarrow> parse_library_dot_properties_loop w f repo row rc s =
      ((JNull, row),
       s\<lparr>requests := requests s @ replicate (Suc urlopen_maximum_retries - rc)
                        (normalize_url w (raw_file_url repo f ''library.properties'')),
         clock := clock s + urlopen_retry_delay * int (Suc urlopen_maximum_retries - rc)\<rparr>)"
proof (induction "Suc urlopen_maximum_retries - rc" arbitrary: rc s)
  case 0
  then have "\<not> rc \<le> urlopen_maximum_retries" by simp
  then show ?case using 0 by (subst parse_library_dot_properties_loop.simps) simp
next
  case (Suc n)
  let ?u = "normalize_url w (raw_file_url repo f ''library.properties'')"
  from Suc have le: "rc \<le> urlopen_maximum_retries" and n: "n = Suc urlopen_maximum_retries - (rc + 1)" by simp_all
  have "0 < Suc urlopen_maximum_retries - rc" using Suc.hyps(2) by simp
  from Suc.prems[rule_format, OF this] obtain code msg where
    first: "urlopen w ?u (length (requests s)) = Failure code msg" "code \<in> {403, 502, 503}"
    by auto
  let ?s1 = "sleep urlopen_retry_delay (s\<lparr>requests := requests s @ [?u]\<rparr>)"
  have rest: "\<forall>k < Suc urlopen_maximum_retries - (rc + 1). \<exists>code msg.
       urlopen w ?u (length (requests ?s1) + k) = Failure code msg \<and> code \<in> {403, 502, 503}"
  proof (intro allI impI)
    fix k assume "k < Suc urlopen_maximum_retries - (rc + 1)"
    then have "Suc k < Suc urlopen_maximum_retries - rc" by simp
    from Suc.prems[rule_format, OF this]
    show "\<exists>code msg. urlopen w ?u (length (requests ?s1) + k) = Failure code msg \<and> code \<in> {403, 502, 503}"
      by (simp add: sleep_def)
  qed
  have step: "parse_library_dot_properties_loop w f repo row rc s =
              parse_library_dot_properties_loop w f repo row (rc + 1) ?s1"
    by (subst parse_library_dot_properties_loop.simps)
       (simp add: le do_urlopen_def first determine_urlopen_retry_codes[OF first(2)])
  show ?case
    unfolding step Suc.hyps(1)[OF n rest]
    using le by (simp add: sleep_def Suc_diff_le replicate_app_Cons_same algebra_simps)
qed

lemma example_properties_url:
  "normalize_url (example_world f) (raw_file_url example_repository ''/'' ''library.properties'')
     = ''https://raw.githubusercontent.com/o/n/m/library.properties''"
  by (simp add: normalize_url_def example_world_simps example_urlparse_def example_urlunparse_def
      startswith_def raw_file_url_def example_repository_def)

lemma get_json_loop_skip_retries:
  assumes "\<forall>k<j. \<exists>code msg.
             urlopen w u (length (requests s) + k) = Failure code msg \<and> code \<in> {403, 502, 503}"
    and "rc + j \<le> Suc urlopen_maximum_retries"
  shows "get_json_from_url_loop w u rc s =
         get_json_from_url_loop w u (rc + j)
           (s\<lparr>requests := requests s @ replicate j u,
              clock := clock s + urlopen_retry_delay * int j\<rparr>)"
  using assms
proof (induction j arbitrary: rc s)
  case 0
  show ?case by simp
next
  case (Suc j)
  have le: "rc \<le> urlopen_maximum_retries" using Suc.prems(2) by simp
  have "0 < Suc j" by simp
  from Suc.prems(1)[rule_format, OF this] obtain code msg where
    first: "urlopen w u (length (requests s)) = Failure code msg" "code \<in> {403, 502, 503}"
    by auto
  let ?s1 = "sleep urlopen_retry_delay (s\<lparr>requests := requests s @ [u]\<rparr>)"
  have rest: "\<forall>k<j. \<exists>code msg.
       urlopen w u (length (requests ?s1) + k) = Failure code msg \<and> code \<in> {403, 502, 503}"
  proof (intro allI impI)
    fix k assume "k < j"
    then have "Suc k < Suc j" by simp
    from Suc.prems(1)[rule_format, OF this]
    show "\<exists>code msg. urlopen w u (length (requests ?s1) + k) = Failure code msg \<and> code \<in> {403, 502, 503}"
      by (simp add: sleep_def)
  qed
  have step: "get_json_from_url_loop w u rc s = get_json_from_url_loop w u (rc + 1) ?s1"
    by (subst get_json_from_url_loop.simps)
       (simp add: le do_urlopen_def first determine_urlopen_retry_codes[OF first(2)])
  have le2: "(rc + 1) + j \<le> Suc urlopen_maximum_retries" using Suc.prems(2) by simp
  show ?case
    unfolding step Suc.IH[OF rest le2]
    by (simp add: sleep_def algebra_simps)
qed

lemma fetch_other_error_after_retries:
  assumes retries: "\<forall>k<j. \<exists>c m.
             urlopen w u (length (requests s) + k) = Failure c m \<and> c \<in> {403, 502, 503}"
    and j: "j \<le> urlopen_maximum_retries"
    and answer: "urlopen w u (length (requests s) + j) = Failure code msg"
    and code: "100 \<le> code" "code < 1000" "code \<notin> {403, 502, 503}"
  shows "get_json_from_url_loop w u 0 s =
           (Inl (HTTPError code msg),
            s\<lparr>requests := requests s @ replicate (Suc j) u,
              clock := clock s + urlopen_retry_delay * int j\<rparr>)"
proof -
  let ?s = "s\<lparr>requests := requests s @ replicate j u,
               clock := clock s + urlopen_retry_delay * int j\<rparr>"
  have "get_json_from_url_loop w u 0 s = get_json_from_url_loop w u (0 + j) ?s"
    by (rule get_json_loop_skip_retries[OF retries]) (use j in simp)
  also have "\<dots> = (Inl (HTTPError code msg), ?s\<lparr>requests := requests ?s @ [u]\<rparr>)"
    by (subst get_json_from_url_loop.simps)
       (simp add: j do_urlopen_def answer determine_urlopen_retry_other[OF code])
  also have "\<dots> = (Inl (HTTPError code msg),
            s\<lparr>requests := requests s @ replicate (Suc j) u,
              clock := clock s + urlopen_retry_delay * int j\<rparr>)"
    by (simp add: replicate_append_same)
  finally show ?thesis .
qed

lemma fetch_undecodable_after_retries:
  assumes retries: "\<forall>k<j. \<exists>c m.
             urlopen w u (length (requests s) + k) = Failure c m \<and> c \<in> {403, 502, 503}"
    and j: "j \<le> urlopen_maximum_retries"
    and answer: "urlopen w u (length (requests s) + j) = Success r" "decoded r = None"
  shows "get_json_from_url_loop w u 0 s =
           (Inl JSONDecodeError,
            s\<lparr>requests := requests s @ replicate (Suc j) u,
              clock := clock s + urlopen_retry_delay * int j\<rparr>)"
proof -
  let ?s = "s\<lparr>requests := requests s @ replicate j u,
               clock := clock s + urlopen_retry_delay * int j\<rparr>"
  have "get_json_from_url_loop w u 0 s = get_json_from_url_loop w u (0 + j) ?s"
    by (rule get_json_loop_skip_retries[OF retries]) (use j in simp)
  also have "\<dots> = (Inl JSONDecodeError, ?s\<lparr>requests := requests ?s @ [u]\<rparr>)"
    by (subst get_json_from_url_loop.simps) (simp add: j do_urlopen_def answer)
  also have "\<dots> = (Inl JSONDecodeError,
            s\<lparr>requests := requests s @ replicate (Suc j) u,
              clock := clock s + urlopen_retry_delay * int j\<rparr>)"
    by (simp add: replicate_append_same)
  finally show ?thesis .
qed

text \<open>
  Claim C4. A fetch whose six first answers are all one of the retryable statuses 403,
  502 and 503 makes exactly six requests, sleeps the retry delay after each (360 seconds
  in all) and raises \<open>TimeoutError\<close>. On whichever attempt it comes, after \<open>j \<le> 5\<close>
  retryable answers, an answer with any other HTTP status (a status code has three
  digits) raises that \<open>HTTPError\<close> at once: \<open>j + 1\<close> requests were made and only the
  \<open>j\<close> retryable answers were slept on. Likewise an answer whose body \<open>json.loads\<close>
  cannot decode raises \<open>JSONDecodeError\<close> at once, after \<open>j + 1\<close> requests.
\<close>

theorem get_json_from_url_retry_bound:
  "((\<forall>k<6. \<exists>code msg. urlopen w (normalize_url w url) (length (requests s) + k) = Failure code msg
                \<and> code \<in> {403, 502, 503})
     \<longrightarrow> get_json_from_url w url s =
           (Inl TimeoutError,
            s\<lparr>requests := requests s @ replicate 6 (normalize_url w url), clock := clock s + 360\<rparr>))
   \<and> (\<forall>j code msg.
          j \<le> 5
          \<and> (\<forall>k<j. \<exists>c m. urlopen w (normalize_url w url) (length (requests s) + k) = Failure c m
                \<and> c \<in> {403, 502, 503})
          \<and> urlopen w (normalize_url w url) (length (requests s) + j) = Failure code msg
          \<and> 100 \<le> code \<and> code < 1000 \<and> code \<notin> {403, 502, 503}
        \<longrightarrow> get_json_from_url w url s =
              (Inl (HTTPError code msg),
               s\<lparr>requests := requests s @ replicate (Suc j) (normalize_url w url),
                 clock := clock s + 60 * int j\<rparr>))
   \<and> (\<forall>j r.
          j \<le> 5
          \<and> (\<forall>k<j. \<exists>c m. urlopen w (normalize_url w url) (length (requests s) + k) = Failure c m
                \<and> c \<in> {403, 502, 503})
          \<and> urlopen w (normalize_url w url) (length (requests s) + j) = Success r
          \<and> decoded r = None
        \<longrightarrow> get_json_from_url w url s =
              (Inl JSONDecodeError,
               s\<lparr>requests := requests s @ replicate (Suc j) (normalize_url w url),
                 clock := clock s + 60 * int j\<rparr>))"
proof (intro conjI allI impI)
  assume a: "\<forall>k<6. \<exists>code msg. urlopen w (normalize_url w url) (length (requests s) + k) = Failure code msg
                \<and> code \<in> {403, 502, 503}"
  have "\<forall>k < Suc urlopen_maximum_retries - 0. \<exists>code msg.
       urlopen w (normalize_url w url) (length (requests s) + k) = Failure code msg \<and> code \<in> {403, 502, 503}"
    using a by (simp add: urlopen_maximum_retries_def)
  from get_json_loop_all_retry[OF this]
  show "get_json_from_url w url s =
           (Inl TimeoutError,
            s\<lparr>requests := requests s @ replicate 6 (normalize_url w url), clock := clock s + 360\<rparr>)"
    by (simp add: get_json_from_url_def urlopen_maximum_retries_def urlopen_retry_delay_def)
next
  fix j code msg
  assume a: "j \<le> 5
          \<and> (\<forall>k<j. \<exists>c m. urlopen w (normalize_url w url) (length (requests s) + k) = Failure c m
                \<and> c \<in> {403, 502, 503})
          \<and> urlopen w (normalize_url w url) (length (requests s) + j) = Failure code msg
          \<and> 100 \<le> code \<and> code < 1000 \<and> code \<notin> {403, 502, 503}"
  then have r: "\<forall>k<j. \<exists>c m. urlopen w (normalize_url w url) (length (requests s) + k) = Failure c m
                \<and> c \<in> {403, 502, 503}" by blast
  from a have j: "j \<le> urlopen_maximum_retries" by (simp add: urlopen_maximum_retries_def)
  from a have rest: "urlopen w (normalize_url w url) (length (requests s) + j) = Failure code msg"
    "100 \<le> code" "code < 1000" "code \<notin> {403, 502, 503}" by blast+
  from fetch_other_error_after_retries[OF r j rest]
  show "get_json_from_url w url s =
              (Inl (HTTPError code msg),
               s\<lparr>requests := requests s @ replicate (Suc j) (normalize_url w url),
                 clock := clock s + 60 * int j\<rparr>)"
    by (simp add: get_json_from_url_def urlopen_retry_delay_def)
next
  fix j r
  assume a: "j \<le> 5
          \<and> (\<forall>k<j. \<exists>c m. urlopen w (normalize_url w url) (length (requests s) + k) = Failure c m
                \<and> c \<in> {403, 502, 503})
          \<and> urlopen w (normalize_url w url) (length (requests s) + j) = Success r
          \<and> decoded r = None"
  then have rt: "\<forall>k<j. \<exists>c m. urlopen w (normalize_url w url) (length (requests s) + k) = Failure c m
                \<and> c \<in> {403, 502, 503}" by blast
  from a have j: "j \<le> urlopen_maximum_retries" by (simp add: urlopen_maximum_retries_def)
  from a have rest: "urlopen w (normalize_url w url) (length (requests s) + j) = Success r"
    "decoded r = None" by blast+
  from fetch_undecodable_after_retries[OF rt j rest]
  show "get_json_from_url w url s =
              (Inl JSONDecodeError,
               s\<lparr>requests := requests s @ replicate (Suc j) (normalize_url w url),
                 clock := clock s + 60 * int j\<rparr>)"
    by (simp add: get_json_from_url_def urlopen_retry_delay_def)
qed

theorem get_json_from_url_retry_bound_witness:
  "get_json_from_url (example_world (\<lambda>url n. Failure 503 ''Service Unavailable''))
       ''https://api.github.com/rate_limit'' initial_state =
     (Inl TimeoutError,
      initial_state\<lparr>requests := replicate 6 ''https://api.github.com/rate_limit'', clock := 360\<rparr>)
   \<and> get_json_from_url
       (example_world (\<lambda>url n. if n = 0 then Failure 503 ''Service Unavailable''
                                else Failure 404 ''Not Found''))
       ''https://api.github.com/rate_limit'' initial_state =
     (Inl (HTTPError 404 ''Not Found''),
      initial_state\<lparr>requests := replicate 2 ''https://api.github.com/rate_limit'', clock := 60\<rparr>)
   \<and> get_json_from_url
       (example_world (\<lambda>url n. if n = 0 then Failure 503 ''Service Unavailable''
                                else Success \<lparr>content = ''<html>'', decoded = None,
                                              link_header = None,
                                              ratelimit_remaining_header = None\<rparr>))
       ''https://api.github.com/rate_limit'' initial_state =
     (Inl JSONDecodeError,
      initial_state\<lparr>requests := replicate 2 ''https://api.github.com/rate_limit'', clock := 60\<rparr>)"
proof -
  have n: "\<And>f. normalize_url (example_world f) ''https://api.github.com/rate_limit'' = ''https://api.github.com/rate_limit''"
    by (simp add: normalize_url_def example_world_simps example_urlparse_def example_urlunparse_def startswith_def)
  have r: "requests initial_state = []" "clock initial_state = 0" by (simp_all add: initial_state_def)
  have 1: "get_json_from_url (example_world (\<lambda>url n. Failure 503 ''Service Unavailable''))
       ''https://api.github.com/rate_limit'' initial_state =
     (Inl TimeoutError,
      initial_state\<lparr>requests := replicate 6 ''https://api.github.com/rate_limit'', clock := 360\<rparr>)"
    using get_json_from_url_retry_bound[of "example_world (\<lambda>url n. Failure 503 ''Service Unavailable'')"
        "''https://api.github.com/rate_limit''" initial_state]
    by (simp add: n r example_world_simps)
  have 2: "get_json_from_url
       (example_world (\<lambda>url n. if n = 0 then Failure 503 ''Service Unavailable''
                                else Failure 404 ''Not Found''))
       ''https://api.github.com/rate_limit'' initial_state =
     (Inl (HTTPError 404 ''Not Found''),
      initial_state\<lparr>requests := replicate 2 ''https://api.github.com/rate_limit'', clock := 60\<rparr>)"
    using get_json_from_url_retry_bound[of
        "example_world (\<lambda>url n. if n = 0 then Failure 503 ''Service Unavailable''
                                else Failure 404 ''Not Found'')"
        "''https://api.github.com/rate_limit''" initial_state,
        THEN conjunct2, THEN conjunct1, rule_format, of 1 404 "''Not Found''"]
    by (simp add: n r example_world_simps numeral_2_eq_2)
  have 3: "get_json_from_url
       (example_world (\<lambda>url n. if n = 0 then Failure 503 ''Service Unavailable''
                                else Success \<lparr>content = ''<html>'', decoded = None,
                                              link_header = None,
                                              ratelimit_remaining_header = None\<rparr>))
       ''https://api.github.com/rate_limit'' initial_state =
     (Inl JSONDecodeError,
      initial_state\<lparr>requests := replicate 2 ''https://api.github.com/rate_limit'', clock := 60\<rparr>)"
    using get_json_from_url_retry_bound[of
        "example_world (\<lambda>url n. if n = 0 then Failure 503 ''Service Unavailable''
                                else Success \<lparr>content = ''<html>'', decoded = None,
                                              link_header = None,
                                              ratelimit_remaining_header = None\<rparr>)"
        "''https://api.github.com/rate_limit''" initial_state,
        THEN conjunct2, THEN conjunct2, rule_format, of 1
        "\<lparr>content = ''<html>'', decoded = None, link_header = None,
          ratelimit_remaining_header = None\<rparr>"]
    by (simp add: n r example_world_simps numeral_2_eq_2)
  show ?thesis using 1 2 3 by blast
qed

text \<open>
  Claim C10, as amended. When the six first answers for \<open>library.properties\<close> are all one
  of the retryable statuses, \<open>parse_library_dot_properties\<close> makes its six requests,
  leaves the row as it was and returns \<open>None\<close>, which is falsy; it raises nothing. The
  call for the root folder in \<open>find_library_folder\<close> treats this as not found: the root is
  reported only if \<open>library.json\<close> is found, and otherwise the listing of the root is
  scanned. The call for a subfolder discards the returned value: the subfolder whose
  listing names \<open>library.properties\<close> becomes the library folder all the same.
\<close>

theorem parse_library_dot_properties_retry_exhausted:
  assumes "\<forall>k<6. \<exists>code msg.
             urlopen w (normalize_url w (raw_file_url repo metadata_folder ''library.properties''))
               (length (requests s) + k) = Failure code msg \<and> code \<in> {403, 502, 503}"
  shows "(let s6 = s\<lparr>requests := requests s @ replicate 6
                        (normalize_url w (raw_file_url repo metadata_folder ''library.properties'')),
                      clock := clock s + 360\<rparr>
          in parse_library_dot_properties w metadata_folder repo row_list s = ((JNull, row_list), s6)
             \<and> \<not> truthy (fst (fst (parse_library_dot_properties w metadata_folder repo row_list s)))
             \<and> (metadata_folder = ''/'' \<longrightarrow>
                  find_library_folder w repo row_list verify s =
                    (case parse_library_dot_json w ''/'' repo row_list s6 of
                       (Inl e, s2) \<Rightarrow> Some (Inl e, s2)
                     | (Inr (json_found, row2), s2) \<Rightarrow>
                         if json_found then Some (Inr (Some ''/'', row2), s2)
                         else scan_root w repo verify 1 row2 s2))
             \<and> (\<forall>item items library_folder.
                  is_header_file item = Inr False \<and>
                  is_file_named item ''library.properties'' = Inr True \<longrightarrow>
                  scan_subdirectory_listing w repo metadata_folder (item # items) library_folder
                      row_list s =
                  scan_subdirectory_listing w repo metadata_folder items (Some metadata_folder)
                      row_list s6))"
proof -
  let ?s6 = "s\<lparr>requests := requests s @ replicate 6
                        (normalize_url w (raw_file_url repo metadata_folder ''library.properties'')),
                      clock := clock s + 360\<rparr>"
  have "\<forall>k < Suc urlopen_maximum_retries - 0. \<exists>code msg.
       urlopen w (normalize_url w (raw_file_url repo metadata_folder ''library.properties''))
         (length (requests s) + k) = Failure code msg \<and> code \<in> {403, 502, 503}"
    using assms by (simp add: urlopen_maximum_retries_def)
  from properties_loop_all_retry[OF this]
  have p: "parse_library_dot_properties w metadata_folder repo row_list s = ((JNull, row_list), ?s6)"
    by (simp add: parse_library_dot_properties_def urlopen_maximum_retries_def urlopen_retry_delay_def)
  have f: "find_library_folder w repo row_list verify s =
                    (case parse_library_dot_json w ''/'' repo row_list ?s6 of
                       (Inl e, s2) \<Rightarrow> Some (Inl e, s2)
                     | (Inr (json_found, row2), s2) \<Rightarrow>
                         if json_found then Some (Inr (Some ''/'', row2), s2)
                         else scan_root w repo verify 1 row2 s2)"
    if "metadata_folder = ''/''"
    using p unfolding that by (simp add: find_library_folder_def split: prod.splits sum.splits)
  have sub: "scan_subdirectory_listing w repo metadata_folder (item # items) library_folder
                      row_list s =
                  scan_subdirectory_listing w repo metadata_folder items (Some metadata_folder)
                      row_list ?s6"
    if "is_header_file item = Inr False \<and> is_file_named item ''library.properties'' = Inr True"
    for item items library_folder
    using that by (simp add: p)
  show ?thesis unfolding Let_def using p f sub by simp
qed

theorem parse_library_dot_properties_retry_exhausted_witness:
  "parse_library_dot_properties (example_world (\<lambda>url n. Failure 503 ''Service Unavailable'')) ''/''
       example_repository (replicate Column_count (JStr [])) initial_state =
     ((JNull, replicate Column_count (JStr [])),
      initial_state\<lparr>requests := replicate 6 ''https://raw.githubusercontent.com/o/n/m/library.properties'',
                     clock := 360\<rparr>)
   \<and> find_library_folder (example_world (\<lambda>url n. Failure 503 ''Service Unavailable''))
       example_repository (replicate Column_count (JStr [])) True initial_state =
     (case parse_library_dot_json (example_world (\<lambda>url n. Failure 503 ''Service Unavailable'')) ''/''
             example_repository (replicate Column_count (JStr []))
             (initial_state\<lparr>requests := replicate 6 ''https://raw.githubusercontent.com/o/n/m/library.properties'',
                     clock := 360\<rparr>) of
        (Inl e, s2) \<Rightarrow> Some (Inl e, s2)
      | (Inr (json_found, row2), s2) \<Rightarrow>
          if json_found then Some (Inr (Some ''/'', row2), s2)
          else scan_root (example_world (\<lambda>url n. Failure 503 ''Service Unavailable''))
                 example_repository True 1 row2 s2)"
  using parse_library_dot_properties_retry_exhausted[of "example_world (\<lambda>url n. Failure 503 ''Service Unavailable'')"
      example_repository "''/''" initial_state "replicate Column_count (JStr [])" True]
  by (simp add: example_properties_url example_world_simps initial_state_def Let_def)

lemma example_lib_properties_url:
  "normalize_url (example_world f) (raw_file_url example_repository ''lib'' ''library.properties'')
     = ''https://raw.githubusercontent.com/o/n/m/lib/library.properties''"
  by (simp add: normalize_url_def example_world_simps example_urlparse_def example_urlunparse_def
      startswith_def raw_file_url_def example_repository_def)

lemma example_lib_properties_exhausted:
  "parse_library_dot_properties (example_world (\<lambda>url n. Failure 503 ''Service Unavailable'')) ''lib''
       example_repository row initial_state =
     ((JNull, row),
      initial_state\<lparr>requests := replicate 6 ''https://raw.githubusercontent.com/o/n/m/lib/library.properties'',
                     clock := 360\<rparr>)"
proof -
  have "\<forall>k < Suc urlopen_maximum_retries - 0. \<exists>code msg.
       urlopen (example_world (\<lambda>url n. Failure 503 ''Service Unavailable''))
         (normalize_url (example_world (\<lambda>url n. Failure 503 ''Service Unavailable''))
            (raw_file_url example_repository ''lib'' ''library.properties''))
         (length (requests initial_state) + k) = Failure code msg \<and> code \<in> {403, 502, 503}"
    by (simp add: example_world_simps)
  from properties_loop_all_retry[OF this]
  show ?thesis
    by (simp add: parse_library_dot_properties_def urlopen_maximum_retries_def urlopen_retry_delay_def
        example_lib_properties_url initial_state_def)
qed

text \<open>
  Claim C10 as it was stated says that the caller treats the \<open>None\<close> as not found. In
  the scan of a subfolder \<open>lib\<close> whose listing names \<open>library.properties\<close>, with a server
  that answers 503 to everything, the parser returns \<open>None\<close> and the folder is reported
  as the library folder.
\<close>

theorem retry_exhaustion_in_subfolder_reports_library:
  "fst (fst (parse_library_dot_properties
               (example_world (\<lambda>url n. Failure 503 ''Service Unavailable'')) ''lib''
               example_repository (replicate Column_count (JStr [])) initial_state)) = JNull
   \<and> fst (scan_subdirectory_listing
            (example_world (\<lambda>url n. Failure 503 ''Service Unavailable'')) example_repository ''lib''
            [JObj [(''type'', JStr ''file''), (''name'', JStr ''library.properties'')]]
            None (replicate Column_count (JStr [])) initial_state)
       = Inr (Some ''lib'', replicate Column_count (JStr []))"
  by (simp add: example_lib_properties_exhausted is_header_file_def is_file_named_def
      split_on_def endswith_def)

section \<open>The page count\<close>

lemma example_header_page_count: "header_page_count example_link_header = JStr ''34''"
  by code_simp

lemma example_contains_next: "contains example_link_header ''>; rel=\"next\"''"
  by code_simp

lemma example_contributors_url:
  "normalize_url (example_world f) ''https://api.github.com/repos/o/n/contributors?per_page=1''
     = ''https://api.github.com/repos/o/n/contributors?per_page=1''"
  by (simp add: normalize_url_def example_world_simps example_urlparse_def example_urlunparse_def
      startswith_def)

lemma example_decoded: "decoded example_contributors_reply = Some (JArr [JObj []])"
  by (simp add: example_contributors_reply_def)

lemma example_read_pages:
  "read_pages (JArr [JObj []]) example_contributors_reply =
     \<lparr>json_data = JArr [JObj []], additional_pages = True, page_count = JStr ''34''\<rparr>"
  by (simp add: read_pages_def example_contributors_reply_def example_header_page_count
      example_contains_next)

lemma page_count_fold_shape:
  "v = JInt 1 \<or> (\<exists>t. v = JStr t) \<Longrightarrow>
   foldl (\<lambda>pc parameter. if take 5 parameter = ''page='' then JStr (split_on CHR ''='' parameter ! 1)
                            else pc) v ps = JInt 1
   \<or> (\<exists>t. foldl (\<lambda>pc parameter. if take 5 parameter = ''page='' then JStr (split_on CHR ''='' parameter ! 1)
                            else pc) v ps = JStr t)"
  by (induction ps arbitrary: v) simp_all

lemma link_page_count_shape:
  "v = JInt 1 \<or> (\<exists>t. v = JStr t) \<Longrightarrow>
   link_page_count l v = JInt 1 \<or> (\<exists>t. link_page_count l v = JStr t)"
  using page_count_fold_shape[of v] by (simp add: link_page_count_def)

lemma header_page_count_fold_shape:
  "v = JInt 1 \<or> (\<exists>t. v = JStr t) \<Longrightarrow>
   foldl (\<lambda>pc link_text. link_page_count link_text pc) v ls = JInt 1 \<or>
   (\<exists>t. foldl (\<lambda>pc link_text. link_page_count link_text pc) v ls = JStr t)"
proof (induction ls arbitrary: v)
  case Nil
  then show ?case by simp
next
  case (Cons a ls)
  show ?case using Cons.IH[OF link_page_count_shape[OF Cons.prems, of a]] by simp
qed

lemma header_page_count_shape:
  "header_page_count l = JInt 1 \<or> (\<exists>t. header_page_count l = JStr t)"
  using header_page_count_fold_shape[of "JInt 1"] by (simp add: header_page_count_def)

text \<open>
  Claim C5. The page count of a successful fetch is the integer 0 for an empty body and
  the integer 1 without a \<open>Link\<close> header, but the value read from the \<open>last\<close> relation is
  the text after \<open>page=\<close>, a \<open>str\<close>: on the first of 34 pages of contributors the fetch
  returns the string \<open>34\<close>, not the integer 34.
\<close>

theorem page_count_from_last_link_is_a_string:
  "fst (get_json_from_url (example_world (\<lambda>url n. Success example_contributors_reply))
          ''https://api.github.com/repos/o/n/contributors?per_page=1'' initial_state)
     = Inr \<lparr>json_data = JArr [JObj []], additional_pages = True, page_count = JStr ''34''\<rparr>"
  unfolding get_json_from_url_def example_contributors_url
  by (subst get_json_from_url_loop.simps)
     (simp add: do_urlopen_def example_world_simps example_decoded example_read_pages
        urlopen_maximum_retries_def)

section \<open>The rate limiter after a wait\<close>

lemma determine_urlopen_retry_requests:
  "requests (snd (determine_urlopen_retry code msg s)) = requests s"
  by (simp add: determine_urlopen_retry_def sleep_def)

lemma note_rate_limit_requests: "requests (note_rate_limit u r s) = requests s"
  by (simp add: note_rate_limit_def split: option.splits)

lemma take_shorter: "take (Suc n) xs = ys @ [u] \<Longrightarrow> length ys = n \<Longrightarrow> take n xs = ys"
proof -
  assume a: "take (Suc n) xs = ys @ [u]" and l: "length ys = n"
  have "take n xs = take n (take (Suc n) xs)" by simp
  also have "\<dots> = ys" using l by (simp only: a) simp
  finally show ?thesis .
qed

lemma get_json_loop_keeps_requests:
  "take (length (requests s)) (requests (snd (get_json_from_url_loop w u rc s))) = requests s"
proof (induction "Suc urlopen_maximum_retries - rc" arbitrary: rc s)
  case 0
  then have "\<not> rc \<le> urlopen_maximum_retries" by simp
  then show ?case by (subst get_json_from_url_loop.simps) simp
next
  case (Suc n)
  then have le: "rc \<le> urlopen_maximum_retries" and n: "n = Suc urlopen_maximum_retries - (rc + 1)" by simp_all
  let ?s1 = "s\<lparr>requests := requests s @ [u]\<rparr>"
  show ?case
  proof (cases "urlopen w u (length (requests s))")
    case (Success r)
    then show ?thesis
      by (subst get_json_from_url_loop.simps)
         (simp add: le do_urlopen_def note_rate_limit_requests split: option.splits)
  next
    case (Failure code msg)
    show ?thesis
    proof (cases "fst (determine_urlopen_retry code msg ?s1)")
      case False
      then show ?thesis
        by (subst get_json_from_url_loop.simps)
           (simp add: le do_urlopen_def Failure determine_urlopen_retry_requests)
    next
      case True
      let ?s2 = "snd (determine_urlopen_retry code msg ?s1)"
      have r2: "requests ?s2 = requests s @ [u]" by (simp add: determine_urlopen_retry_requests)
      have step: "get_json_from_url_loop w u rc s = get_json_from_url_loop w u (rc + 1) ?s2"
        by (subst get_json_from_url_loop.simps) (simp add: le do_urlopen_def Failure True)
      have "take (Suc (length (requests s))) (requests (snd (get_json_from_url_loop w u (rc + 1) ?s2)))
              = requests s @ [u]"
        using Suc.hyps(1)[OF n, of ?s2] by (simp add: r2)
      from take_shorter[OF this] show ?thesis by (simp add: step)
    qed
  qed
qed

lemma get_json_loop_first_request:
  assumes "rc \<le> urlopen_maximum_retries"
  shows "take (Suc (length (requests s))) (requests (snd (get_json_from_url_loop w u rc s)))
           = requests s @ [u]"
proof (cases "urlopen w u (length (requests s))")
  case (Success r)
  then show ?thesis
    by (subst get_json_from_url_loop.simps)
       (simp add: assms do_urlopen_def note_rate_limit_requests split: option.splits)
next
  case (Failure code msg)
  let ?s1 = "s\<lparr>requests := requests s @ [u]\<rparr>"
  show ?thesis
  proof (cases "fst (determine_urlopen_retry code msg ?s1)")
    case False
    then show ?thesis
      by (subst get_json_from_url_loop.simps)
         (simp add: assms do_urlopen_def Failure determine_urlopen_retry_requests)
  next
    case True
    let ?s2 = "snd (determine_urlopen_retry code msg ?s1)"
    have r2: "requests ?s2 = requests s @ [u]" by (simp add: determine_urlopen_retry_requests)
    have step: "get_json_from_url_loop w u rc s = get_json_from_url_loop w u (rc + 1) ?s2"
      by (subst get_json_from_url_loop.simps) (simp add: assms do_urlopen_def Failure True)
    show ?thesis
      using get_json_loop_keeps_requests[of ?s2 w u "rc + 1"] by (simp add: step r2)
  qed
qed

lemma check_rate_limiting_requests:
  "py_eq_zero (last_api_requests_remaining_value s a) \<Longrightarrow>
   requests (snd (check_rate_limiting w a s)) =
   requests (snd (get_json_from_url w ''https://api.github.com/rate_limit'' s))"
  by (simp add: check_rate_limiting_def wait_until_def Let_def
      split: prod.splits sum.splits option.splits)

lemma example_rate_limit_url:
  "normalize_url (example_world f) ''https://api.github.com/rate_limit'' = ''https://api.github.com/rate_limit''"
  by (simp add: normalize_url_def example_world_simps example_urlparse_def example_urlunparse_def
      startswith_def)

lemma example_rate_limit_fetch:
  "get_json_from_url (example_world (\<lambda>url n. Success example_rate_limit_reply))
      ''https://api.github.com/rate_limit'' initial_state =
   (Inr \<lparr>json_data = JObj [(''resources'',
                  JObj [(''core'', JObj [(''limit'', JInt 60), (''remaining'', JInt 0),
                                          (''reset'', JInt 1000)])])],
         additional_pages = False, page_count = JInt 1\<rparr>,
    initial_state\<lparr>requests := [''https://api.github.com/rate_limit''],
                   last_api_requests_remaining_value := (\<lambda>a. JInt 0)(Core := JInt 59)\<rparr>)"
  unfolding get_json_from_url_def example_rate_limit_url
  by (subst get_json_from_url_loop.simps)
     (simp add: do_urlopen_def example_world_simps example_rate_limit_reply_def read_pages_def
        note_rate_limit_def startswith_def initial_state_def urlopen_maximum_retries_def)


text \<open>
  Claim C8. When \<open>check_rate_limiting\<close> finds the cached count of a pool at zero, asks
  the rate limit API and reads a remaining count of zero there, it waits until the reset
  time and returns with the cached count of that pool equal to zero, whatever the
  quota header of the answer had pushed into the cache. The next call for that pool
  therefore opens the rate limit URL again: its first request is that URL.
\<close>

theorem check_rate_limiting_leaves_zero:
  assumes "py_eq_zero (last_api_requests_remaining_value s a)"
    and "get_json_from_url w ''https://api.github.com/rate_limit'' s = (Inr r, s1)"
    and "py_dict (json_data r) = Inr d"
    and "rate_limit_field d a ''remaining'' = Inr remaining"
    and "py_eq_zero remaining"
    and "rate_limit_field d a ''reset'' = Inr reset_time"
    and "py_number reset_time = Some t"
    and "rate_limit_field d a ''limit'' = Inr limit"
  shows "(let s' = s1\<lparr>last_api_requests_remaining_value :=
                          (last_api_requests_remaining_value s1)(a := remaining),
                       clock := max (clock s1) t\<rparr>
          in check_rate_limiting w a s = (Inr (), s')
             \<and> py_eq_zero (last_api_requests_remaining_value s' a)
             \<and> t \<le> clock s'
             \<and> take (Suc (length (requests s'))) (requests (snd (check_rate_limiting w a s')))
                 = requests s' @ [normalize_url w ''https://api.github.com/rate_limit''])"
proof -
  let ?s' = "s1\<lparr>last_api_requests_remaining_value :=
                          (last_api_requests_remaining_value s1)(a := remaining),
                       clock := max (clock s1) t\<rparr>"
  have 1: "check_rate_limiting w a s = (Inr (), ?s')"
    using assms by (simp add: check_rate_limiting_def wait_until_def Let_def)
  have 2: "py_eq_zero (last_api_requests_remaining_value ?s' a)" using assms(5) by simp
  have 3: "t \<le> clock ?s'" by simp
  have 4: "take (Suc (length (requests ?s'))) (requests (snd (check_rate_limiting w a ?s')))
             = requests ?s' @ [normalize_url w ''https://api.github.com/rate_limit'']"
    unfolding check_rate_limiting_requests[OF 2] get_json_from_url_def
    by (rule get_json_loop_first_request) simp
  show ?thesis unfolding Let_def using 1 2 3 4 by blast
qed


theorem check_rate_limiting_leaves_zero_witness:
  "check_rate_limiting (example_world (\<lambda>url n. Success example_rate_limit_reply)) Core initial_state =
     (Inr (), initial_state\<lparr>requests := [''https://api.github.com/rate_limit''],
                             last_api_requests_remaining_value := (\<lambda>a. JInt 0)(Core := JInt 0),
                             clock := 1000\<rparr>)
   \<and> take 2 (requests (snd (check_rate_limiting (example_world (\<lambda>url n. Success example_rate_limit_reply)) Core
        (initial_state\<lparr>requests := [''https://api.github.com/rate_limit''],
                             last_api_requests_remaining_value := (\<lambda>a. JInt 0)(Core := JInt 0),
                             clock := 1000\<rparr>))))
      = [''https://api.github.com/rate_limit'', ''https://api.github.com/rate_limit'']"
  using check_rate_limiting_leaves_zero[OF _ example_rate_limit_fetch, of Core
      "[(''resources'', JObj [(''core'', JObj [(''limit'', JInt 60), (''remaining'', JInt 0),
                                          (''reset'', JInt 1000)])])]"
      "JInt 0" "JInt 1000" 1000 "JInt 60"]
  by (simp add: initial_state_def rate_limit_field_def dict_get_def api_name_def Let_def
      example_rate_limit_url numeral_2_eq_2)

section \<open>The fields of library.json\<close>

lemma store_str_length: "length (store_str d key col row) = length row"
  by (simp add: store_str_def split: sum.splits)

lemma store_str_other: "c \<noteq> col \<Longrightarrow> store_str d key col row ! c = row ! c"
  by (simp add: store_str_def split: sum.splits)

lemma store_repository_length: "length (fst (store_repository d repo row s)) = length row"
  by (simp add: store_repository_def split: sum.splits error.splits)

lemma store_repository_other:
  "c \<noteq> Column_platformio_repository \<Longrightarrow> fst (store_repository d repo row s) ! c = row ! c"
  by (simp add: store_repository_def split: sum.splits error.splits)

lemma store_repository_warnings:
  "set (warnings s) \<subseteq> set (warnings (snd (store_repository d repo row s)))"
  by (auto simp: store_repository_def logger_warning_def split: sum.splits error.splits)

lemma store_list_or_str_ok:
  assumes "joinable d key"
  shows "\<exists>row' s'. store_list_or_str d key col repo row s = (Inr row', s') \<and>
           length row' = length row \<and> (\<forall>c. c \<noteq> col \<longrightarrow> row' ! c = row ! c) \<and>
           set (warnings s) \<subseteq> set (warnings s')"
proof (cases "dict_get d key")
  case (Inl e)
  then show ?thesis by (simp add: store_list_or_str_def)
next
  case (Inr v)
  show ?thesis
  proof (cases v)
    case (JArr xs)
    with Inr assms obtain ys where "strings_of xs = Some ys" by (auto simp: joinable_def)
    with Inr JArr show ?thesis by (simp add: store_list_or_str_def join_values_def)
  qed (use Inr in \<open>auto simp: store_list_or_str_def logger_warning_def\<close>)
qed

lemma fill_after_authors:
  assumes a: "store_authors d repo
                (store_str d ''keywords'' Column_platformio_keywords
                  (store_str d ''description'' Column_platformio_description
                    (store_str d ''name'' Column_platformio_name row_list))) s = (Inr row4, s1)"
    and f: "joinable d ''frameworks''" and p: "joinable d ''platforms''"
  shows "\<exists>row' s'. fill_from_library_json d repo row_list s = (Inr row', s') \<and>
           row' ! Column_platformio_authors = row4 ! Column_platformio_authors \<and>
           set (warnings s1) \<subseteq> set (warnings s')"
proof -
  obtain row5 s2 where r5: "store_repository d repo row4 s1 = (row5, s2)"
    by (cases "store_repository d repo row4 s1")
  have r5a: "row5 ! Column_platformio_authors = row4 ! Column_platformio_authors"
    using store_repository_other[of Column_platformio_authors d repo row4 s1] r5
    by (simp add: Column_defs)
  have w2: "set (warnings s1) \<subseteq> set (warnings s2)"
    using store_repository_warnings[of s1 d repo row4] r5 by simp
  define row9 where "row9 = store_str d ''homepage'' Column_platformio_homepage
                 (store_str d ''downloadUrl'' Column_platformio_download_url
                   (store_str d ''license'' Column_platformio_license
                     (store_str d ''version'' Column_platformio_version row5)))"
  have r9a: "row9 ! Column_platformio_authors = row5 ! Column_platformio_authors"
    unfolding row9_def by (simp add: store_str_other Column_defs)
  from store_list_or_str_ok[OF f, of Column_platformio_frameworks repo row9 s2]
  obtain row10 s3 where
    r10: "store_list_or_str d ''frameworks'' Column_platformio_frameworks repo row9 s2 = (Inr row10, s3)"
    and r10a: "\<forall>c. c \<noteq> Column_platformio_frameworks \<longrightarrow> row10 ! c = row9 ! c"
    and w3: "set (warnings s2) \<subseteq> set (warnings s3)" by blast
  from store_list_or_str_ok[OF p, of Column_platformio_platforms repo row10 s3]
  obtain row11 s4 where
    r11: "store_list_or_str d ''platforms'' Column_platformio_platforms repo row10 s3 = (Inr row11, s4)"
    and r11a: "\<forall>c. c \<noteq> Column_platformio_platforms \<longrightarrow> row11 ! c = row10 ! c"
    and w4: "set (warnings s3) \<subseteq> set (warnings s4)" by blast
  have fill: "fill_from_library_json d repo row_list s = (Inr row11, s4)"
    using r10 r11 unfolding row9_def
    by (simp add: fill_from_library_json_def Let_def a r5)
  have "row11 ! Column_platformio_authors = row10 ! Column_platformio_authors"
    using r11a by (simp add: Column_defs)
  also have "\<dots> = row9 ! Column_platformio_authors" using r10a by (simp add: Column_defs)
  also have "\<dots> = row4 ! Column_platformio_authors" using r9a r5a by simp
  finally have "row11 ! Column_platformio_authors = row4 ! Column_platformio_authors" .
  moreover have "set (warnings s1) \<subseteq> set (warnings s4)" using w2 w3 w4 by blast
  ultimately show ?thesis using fill by blast
qed

lemma author_names_objects:
  "list_all2 (\<lambda>author n. getitem author ''name'' = Inr (JStr n)) authors names
   \<Longrightarrow> author_names authors = Inr (map JStr names)"
  by (induction authors names rule: list_all2_induct) simp_all

lemma strings_of_map_JStr: "strings_of (map JStr names) = Some names"
  by (induction names) simp_all

lemma store_authors_list:
  assumes "dict_get d ''authors'' = Inr (JArr authors)"
    and "list_all2 (\<lambda>author n. getitem author ''name'' = Inr (JStr n)) authors names"
  shows "store_authors d repo row s =
           (Inr (row[Column_platformio_authors := JStr (join '', '' names)]), s)"
  by (simp add: store_authors_def assms(1) author_names_objects[OF assms(2)] join_values_def
      strings_of_map_JStr)

lemma store_authors_object:
  assumes "dict_get d ''authors'' = Inr (JObj kvs)" and "map_of kvs ''name'' = Some n"
  shows "store_authors d repo row s = (Inr (row[Column_platformio_authors := n]), s)"
  by (simp add: store_authors_def assms)

lemma store_authors_string:
  assumes "dict_get d ''authors'' = Inr (JStr a)"
  shows "store_authors d repo row s = (Inr (row[Column_platformio_authors := JStr a]), s)"
  by (simp add: store_authors_def assms)

lemma store_authors_scalar:
  assumes "dict_get d ''authors'' = Inr v" and "v = JNull \<or> (\<exists>b. v = JBool b) \<or> (\<exists>i. v = JInt i)"
  shows "store_authors d repo row s =
           (Inr row,
            logger_warning (''Can't handle type of library.json authors field for '' @ html_url repo) s)"
  using assms by (auto simp: store_authors_def)

lemma parse_after_authors:
  assumes fetch: "get_json_from_url w (raw_file_url repo folder ''library.json'') s = (Inr r, s1)"
    and d: "py_dict (json_data r) = Inr d"
    and a: "store_authors d repo
                (store_str d ''keywords'' Column_platformio_keywords
                  (store_str d ''description'' Column_platformio_description
                    (store_str d ''name'' Column_platformio_name row_list))) s1 = (Inr row4, s2)"
    and f: "joinable d ''frameworks''" and p: "joinable d ''platforms''"
  shows "\<exists>row' s'. parse_library_dot_json w folder repo row_list s = (Inr (True, row'), s') \<and>
           row' ! Column_platformio_authors = row4 ! Column_platformio_authors \<and>
           set (warnings s2) \<subseteq> set (warnings s')"
proof -
  from fill_after_authors[OF a f p] obtain row' s' where
    "fill_from_library_json d repo row_list s1 = (Inr row', s')"
    "row' ! Column_platformio_authors = row4 ! Column_platformio_authors"
    "set (warnings s2) \<subseteq> set (warnings s')" by blast
  then show ?thesis by (simp add: parse_library_dot_json_def fetch d)
qed

lemma example_library_json_url:
  "normalize_url (example_world f) (raw_file_url example_repository ''/'' ''library.json'')
     = ''https://raw.githubusercontent.com/o/n/m/library.json''"
  by (simp add: normalize_url_def example_world_simps example_urlparse_def example_urlunparse_def
      startswith_def raw_file_url_def example_repository_def)

lemma example_library_json_fetch:
  "truthy v \<Longrightarrow>
   get_json_from_url (example_world (\<lambda>url n. Success (example_library_json_reply v)))
      (raw_file_url example_repository ''/'' ''library.json'') initial_state =
   (Inr \<lparr>json_data = v, additional_pages = False, page_count = JInt 1\<rparr>,
    initial_state\<lparr>requests := [''https://raw.githubusercontent.com/o/n/m/library.json'']\<rparr>)"
  unfolding get_json_from_url_def example_library_json_url
  by (subst get_json_from_url_loop.simps)
     (simp add: do_urlopen_def example_world_simps example_library_json_reply_def read_pages_def
        note_rate_limit_def initial_state_def urlopen_maximum_retries_def)


text \<open>
  Claim C3, as amended. Let \<open>library.json\<close> be fetched and decoded to a dict whose
  \<open>frameworks\<close> and \<open>platforms\<close> fields can be joined. Then the parse returns \<open>True\<close>
  and the authors cell of the row holds: for a list of objects with the string names
  \<open>A\<close>, \<open>B\<close>, ... the text \<open>A, B, ...\<close>; for one object its \<open>name\<close>; for a string the
  string. An authors field that is \<open>null\<close>, a boolean or a number leaves the cell as it
  was and logs the warning. Nothing is said of a list with an item that is no object.
\<close>

theorem parse_library_dot_json_authors:
  assumes fetch: "get_json_from_url w (raw_file_url repo folder ''library.json'') s = (Inr r, s1)"
    and d: "py_dict (json_data r) = Inr d"
    and len: "length row_list = Column_count"
    and f: "joinable d ''frameworks''" and p: "joinable d ''platforms''"
    and v: "dict_get d ''authors'' = Inr v"
  shows "(\<forall>authors names.
            v = JArr authors \<and>
            list_all2 (\<lambda>author n. getitem author ''name'' = Inr (JStr n)) authors names \<longrightarrow>
            (\<exists>row' s'. parse_library_dot_json w folder repo row_list s = (Inr (True, row'), s') \<and>
                row' ! Column_platformio_authors = JStr (join '', '' names)))
       \<and> (\<forall>kvs n. v = JObj kvs \<and> map_of kvs ''name'' = Some n \<longrightarrow>
            (\<exists>row' s'. parse_library_dot_json w folder repo row_list s = (Inr (True, row'), s') \<and>
                row' ! Column_platformio_authors = n))
       \<and> (\<forall>a. v = JStr a \<longrightarrow>
            (\<exists>row' s'. parse_library_dot_json w folder repo row_list s = (Inr (True, row'), s') \<and>
                row' ! Column_platformio_authors = JStr a))
       \<and> (v = JNull \<or> (\<exists>b. v = JBool b) \<or> (\<exists>i. v = JInt i) \<longrightarrow>
            (\<exists>row' s'. parse_library_dot_json w folder repo row_list s = (Inr (True, row'), s') \<and>
                row' ! Column_platformio_authors = row_list ! Column_platformio_authors \<and>
                (''Can't handle type of library.json authors field for '' @ html_url repo)
                  \<in> set (warnings s')))"
proof -
  let ?row3 = "store_str d ''keywords'' Column_platformio_keywords
                  (store_str d ''description'' Column_platformio_description
                    (store_str d ''name'' Column_platformio_name row_list))"
  have l3: "Column_platformio_authors < length ?row3"
    by (simp add: store_str_length len Column_defs)
  have k3: "?row3 ! Column_platformio_authors = row_list ! Column_platformio_authors"
    by (simp add: store_str_other Column_defs)
  show ?thesis
  proof (intro conjI allI impI)
    fix authors names
    assume "v = JArr authors \<and>
            list_all2 (\<lambda>author n. getitem author ''name'' = Inr (JStr n)) authors names"
    then have "dict_get d ''authors'' = Inr (JArr authors)"
      "list_all2 (\<lambda>author n. getitem author ''name'' = Inr (JStr n)) authors names"
      using v by simp_all
    from store_authors_list[OF this]
    have sa: "store_authors d repo ?row3 s1 =
                (Inr (?row3[Column_platformio_authors := JStr (join '', '' names)]), s1)" .
    from parse_after_authors[OF fetch d sa f p] obtain row' s' where
      "parse_library_dot_json w folder repo row_list s = (Inr (True, row'), s')"
      "row' ! Column_platformio_authors =
         ?row3[Column_platformio_authors := JStr (join '', '' names)] ! Column_platformio_authors"
      by blast
    then show "\<exists>row' s'. parse_library_dot_json w folder repo row_list s = (Inr (True, row'), s') \<and>
                row' ! Column_platformio_authors = JStr (join '', '' names)"
      using l3 by (simp only: nth_list_update_eq) blast
  next
    fix kvs n
    assume "v = JObj kvs \<and> map_of kvs ''name'' = Some n"
    then have "dict_get d ''authors'' = Inr (JObj kvs)" "map_of kvs ''name'' = Some n"
      using v by simp_all
    from store_authors_object[OF this]
    have sa: "store_authors d repo ?row3 s1 = (Inr (?row3[Column_platformio_authors := n]), s1)" .
    from parse_after_authors[OF fetch d sa f p] obtain row' s' where
      "parse_library_dot_json w folder repo row_list s = (Inr (True, row'), s')"
      "row' ! Column_platformio_authors = ?row3[Column_platformio_authors := n] ! Column_platformio_authors"
      by blast
    then show "\<exists>row' s'. parse_library_dot_json w folder repo row_list s = (Inr (True, row'), s') \<and>
                row' ! Column_platformio_authors = n"
      using l3 by (simp only: nth_list_update_eq) blast
  next
    fix a
    assume "v = JStr a"
    then have "dict_get d ''authors'' = Inr (JStr a)" using v by simp
    from store_authors_string[OF this]
    have sa: "store_authors d repo ?row3 s1 = (Inr (?row3[Column_platformio_authors := JStr a]), s1)" .
    from parse_after_authors[OF fetch d sa f p] obtain row' s' where
      "parse_library_dot_json w folder repo row_list s = (Inr (True, row'), s')"
      "row' ! Column_platformio_authors = ?row3[Column_platformio_authors := JStr a] ! Column_platformio_authors"
      by blast
    then show "\<exists>row' s'. parse_library_dot_json w folder repo row_list s = (Inr (True, row'), s') \<and>
                row' ! Column_platformio_authors = JStr a"
      using l3 by (simp only: nth_list_update_eq) blast
  next
    assume "v = JNull \<or> (\<exists>b. v = JBool b) \<or> (\<exists>i. v = JInt i)"
    from store_authors_scalar[OF v this]
    have sa: "store_authors d repo ?row3 s1 =
                (Inr ?row3,
                 logger_warning (''Can't handle type of library.json authors field for '' @ html_url repo) s1)" .
    from parse_after_authors[OF fetch d sa f p] obtain row' s' where
      "parse_library_dot_json w folder repo row_list s = (Inr (True, row'), s')"
      "row' ! Column_platformio_authors = ?row3 ! Column_platformio_authors"
      "set (warnings (logger_warning (''Can't handle type of library.json authors field for '' @ html_url repo) s1))
         \<subseteq> set (warnings s')"
      by blast
    then show "\<exists>row' s'. parse_library_dot_json w folder repo row_list s = (Inr (True, row'), s') \<and>
                row' ! Column_platformio_authors = row_list ! Column_platformio_authors \<and>
                (''Can't handle type of library.json authors field for '' @ html_url repo)
                  \<in> set (warnings s')"
      using k3 by (auto simp: logger_warning_def)
  qed
qed


theorem parse_library_dot_json_authors_witness:
  "(\<exists>row' s'. parse_library_dot_json
        (example_world (\<lambda>url n. Success (example_library_json_reply
           (JObj [(''authors'', JArr [JObj [(''name'', JStr ''A'')], JObj [(''name'', JStr ''B'')]])]))))
        ''/'' example_repository (replicate Column_count (JStr [])) initial_state = (Inr (True, row'), s') \<and>
      row' ! Column_platformio_authors = JStr ''A, B'')
   \<and> (\<exists>row' s'. parse_library_dot_json
        (example_world (\<lambda>url n. Success (example_library_json_reply
           (JObj [(''authors'', JObj [(''name'', JStr ''A'')])]))))
        ''/'' example_repository (replicate Column_count (JStr [])) initial_state = (Inr (True, row'), s') \<and>
      row' ! Column_platformio_authors = JStr ''A'')
   \<and> (\<exists>row' s'. parse_library_dot_json
        (example_world (\<lambda>url n. Success (example_library_json_reply
           (JObj [(''authors'', JInt 7)]))))
        ''/'' example_repository (replicate Column_count (JStr [])) initial_state = (Inr (True, row'), s') \<and>
      row' ! Column_platformio_authors = JStr [] \<and>
      ''Can't handle type of library.json authors field for https://github.com/o/n'' \<in> set (warnings s'))"
proof -
  have fetch: "get_json_from_url
        (example_world (\<lambda>url n. Success (example_library_json_reply (JObj [(''authors'', a)]))))
        (raw_file_url example_repository ''/'' ''library.json'') initial_state =
      (Inr \<lparr>json_data = JObj [(''authors'', a)], additional_pages = False, page_count = JInt 1\<rparr>,
       initial_state\<lparr>requests := [''https://raw.githubusercontent.com/o/n/m/library.json'']\<rparr>)" for a
    by (rule example_library_json_fetch) simp
  have d: "py_dict (json_data \<lparr>json_data = JObj [(''authors'', a)], additional_pages = False,
                               page_count = JInt 1\<rparr>) = Inr [(''authors'', a)]" for a
    by simp
  have len: "length (replicate Column_count (JStr [])) = Column_count" by simp
  have f: "joinable [(''authors'', a)] ''frameworks''" for a by (simp add: joinable_def dict_get_def)
  have p: "joinable [(''authors'', a)] ''platforms''" for a by (simp add: joinable_def dict_get_def)
  have v: "dict_get [(''authors'', a)] ''authors'' = Inr a" for a by (simp add: dict_get_def)
  have 1: "\<exists>row' s'. parse_library_dot_json
        (example_world (\<lambda>url n. Success (example_library_json_reply
           (JObj [(''authors'', JArr [JObj [(''name'', JStr ''A'')], JObj [(''name'', JStr ''B'')]])]))))
        ''/'' example_repository (replicate Column_count (JStr [])) initial_state = (Inr (True, row'), s') \<and>
      row' ! Column_platformio_authors = JStr ''A, B''"
    using parse_library_dot_json_authors[OF fetch[of "JArr [JObj [(''name'', JStr ''A'')], JObj [(''name'', JStr ''B'')]]"] d[of "JArr [JObj [(''name'', JStr ''A'')], JObj [(''name'', JStr ''B'')]]"] len f[of "JArr [JObj [(''name'', JStr ''A'')], JObj [(''name'', JStr ''B'')]]"] p[of "JArr [JObj [(''name'', JStr ''A'')], JObj [(''name'', JStr ''B'')]]"] v[of "JArr [JObj [(''name'', JStr ''A'')], JObj [(''name'', JStr ''B'')]]"],
        THEN conjunct1, rule_format,
        of "[JObj [(''name'', JStr ''A'')], JObj [(''name'', JStr ''B'')]]" "[''A'', ''B'']"]
    by simp
  have 2: "\<exists>row' s'. parse_library_dot_json
        (example_world (\<lambda>url n. Success (example_library_json_reply
           (JObj [(''authors'', JObj [(''name'', JStr ''A'')])]))))
        ''/'' example_repository (replicate Column_count (JStr [])) initial_state = (Inr (True, row'), s') \<and>
      row' ! Column_platformio_authors = JStr ''A''"
    using parse_library_dot_json_authors[OF fetch[of "JObj [(''name'', JStr ''A'')]"] d[of "JObj [(''name'', JStr ''A'')]"] len f[of "JObj [(''name'', JStr ''A'')]"] p[of "JObj [(''name'', JStr ''A'')]"] v[of "JObj [(''name'', JStr ''A'')]"],
        THEN conjunct2, THEN conjunct1,
        rule_format, of "[(''name'', JStr ''A'')]" "JStr ''A''"]
    by simp
  have 3: "\<exists>row' s'. parse_library_dot_json
        (example_world (\<lambda>url n. Success (example_library_json_reply
           (JObj [(''authors'', JInt 7)]))))
        ''/'' example_repository (replicate Column_count (JStr [])) initial_state = (Inr (True, row'), s') \<and>
      row' ! Column_platformio_authors = JStr [] \<and>
      ''Can't handle type of library.json authors field for https://github.com/o/n'' \<in> set (warnings s')"
    using parse_library_dot_json_authors[OF fetch[of "JInt 7"] d[of "JInt 7"] len f[of "JInt 7"] p[of "JInt 7"] v[of "JInt 7"],
        THEN conjunct2, THEN conjunct2, THEN conjunct2, rule_format]
    by (simp add: Column_defs example_repository_def)
  show ?thesis using 1 2 3 by blast
qed


text \<open>
  Claim C3 as it was stated takes the authors as the list of strings \<open>["A", "B"]\<close>. The
  code reads \<open>author["name"]\<close> of every item, which raises \<open>TypeError\<close> on a string, and
  only \<open>KeyError\<close> is caught: the parse fails, and nothing is stored.
\<close>

theorem authors_list_of_strings_raises:
  "fst (parse_library_dot_json
        (example_world (\<lambda>url n. Success (example_library_json_reply
           (JObj [(''authors'', JArr [JStr ''A'', JStr ''B''])]))))
        ''/'' example_repository (replicate Column_count (JStr [])) initial_state) = Inl TypeError"
  by (simp add: parse_library_dot_json_def example_library_json_fetch fill_from_library_json_def
      store_str_def dict_get_def store_authors_def Let_def)


text \<open>
  Claim C6. The docstring promises \<open>True\<close> whenever the file could be opened. A
  \<open>library.json\<close> that is retrieved and decodes to the array \<open>[{"name": "x"}]\<close> makes
  \<open>dict(...)\<close> raise \<open>ValueError\<close>, which nothing catches: the parser returns neither
  \<open>True\<close> nor \<open>False\<close>.
\<close>

theorem library_json_array_raises:
  "fst (parse_library_dot_json
        (example_world (\<lambda>url n. Success (example_library_json_reply
           (JArr [JObj [(''name'', JStr ''x'')]]))))
        ''/'' example_repository (replicate Column_count (JStr [])) initial_state) = Inl ValueError"
  by (simp add: parse_library_dot_json_def example_library_json_fetch)

section \<open>The verification rule of the locator\<close>









lemma scan_root_verify:
  assumes "get_github_api_response w (contents_request repo) [] page_number s = (res, s1)"
  shows "scan_root w repo True page_number row_list s =
     Some (case res of
             Inl (HTTPError code msg) \<Rightarrow> (Inr (None, row_list), s1)
           | Inl JSONDecodeError \<Rightarrow>
               (Inr (None, row_list),
                logger_warning ''Could not load contents API for the root folder of repo.'' s1)
           | Inl TimeoutError \<Rightarrow>
               (Inr (None, row_list),
                logger_warning ''Could not load contents API for the root folder of repo.'' s1)
           | Inl e \<Rightarrow> (Inl e, s1)
           | Inr r \<Rightarrow>
               (case py_list (json_data r) of
                  Inl e \<Rightarrow> (Inl e, s1)
                | Inr root_directory_listing \<Rightarrow>
                    (case scan_root_listing True root_directory_listing (False, False, False) of
                       Inl e \<Rightarrow> (Inl e, s1)
                     | Inr (h, sk, ex) \<Rightarrow>
                         (Inr (if h \<and> (\<not> sk \<or> ex) then Some ''/'' else None, row_list), s1))))"
  by (subst scan_root.simps)
     (auto simp: assms split: sum.splits error.splits prod.splits)

lemma scan_root_verify_requests:
  assumes "get_github_api_response w (contents_request repo) [] page_number s = (res, s1)"
  shows "\<exists>out s'. scan_root w repo True page_number row_list s = Some (out, s') \<and>
           requests s' = requests s1"
  unfolding scan_root_verify[OF assms]
  by (auto simp: logger_warning_def split: sum.splits error.splits prod.splits)

lemma str_nat_small:
  "str_nat 1 = ''1''" "str_nat (Suc 0) = ''1''" "str_nat 2 = ''2''" "str_nat 100 = ''100''"
  by (simp_all add: str_nat.simps digit_char_def)

lemma determine_urlopen_retry_404: "determine_urlopen_retry 404 msg s = (False, s)"
  by (rule determine_urlopen_retry_other) simp_all


lemma example_contents_url:
  "normalize_url (example_world f)
     (''https://api.github.com/'' @ contents_request example_repository @ ''?'' @ [] @
      ''&page='' @ str_nat 1 @ ''&per_page='' @ str_nat results_per_page)
   = ''https://api.github.com/repos/o/n/contents?&page=1&per_page=100''"
  by (simp add: normalize_url_def example_world_simps example_urlparse_def example_urlunparse_def
      startswith_def contents_request_def example_repository_def str_nat_small results_per_page_def)

lemma example_properties_absent:
  assumes "server ''https://raw.githubusercontent.com/o/n/m/library.properties'' (length (requests s))
             = Failure 404 ''Not Found''"
  shows "parse_library_dot_properties (example_world server) ''/'' example_repository row s =
     ((JBool False, row),
      s\<lparr>requests := requests s @ [''https://raw.githubusercontent.com/o/n/m/library.properties'']\<rparr>)"
  unfolding parse_library_dot_properties_def
  by (subst parse_library_dot_properties_loop.simps)
     (simp add: do_urlopen_def example_properties_url example_world_simps assms
        determine_urlopen_retry_404 urlopen_maximum_retries_def)

lemma example_library_json_absent:
  assumes "server ''https://raw.githubusercontent.com/o/n/m/library.json'' (length (requests s))
             = Failure 404 ''Not Found''"
  shows "parse_library_dot_json (example_world server) ''/'' example_repository row s =
     (Inr (False, row),
      s\<lparr>requests := requests s @ [''https://raw.githubusercontent.com/o/n/m/library.json'']\<rparr>)"
proof -
  have "get_json_from_url (example_world server)
          (raw_file_url example_repository ''/'' ''library.json'') s =
        (Inl (HTTPError 404 ''Not Found''),
         s\<lparr>requests := requests s @ [''https://raw.githubusercontent.com/o/n/m/library.json'']\<rparr>)"
    unfolding get_json_from_url_def example_library_json_url
    by (subst get_json_from_url_loop.simps)
       (simp add: do_urlopen_def example_world_simps assms
          determine_urlopen_retry_404 urlopen_maximum_retries_def)
  then show ?thesis by (simp add: parse_library_dot_json_def)
qed

lemma example_contents_request:
  assumes "\<not> py_eq_zero (last_api_requests_remaining_value s Core)"
  shows "get_github_api_response (example_world server) (contents_request example_repository) [] 1 s =
         get_json_from_url_loop (example_world server)
           ''https://api.github.com/repos/o/n/contents?&page=1&per_page=100'' 0 s"
proof -
  have c: "check_rate_limiting (example_world server) Core s = (Inr (), s)"
    using assms by (simp add: check_rate_limiting_def)
  have nosearch: "\<not> startswith (contents_request example_repository) ''search''"
    by (simp add: startswith_def contents_request_def)
  show ?thesis
    unfolding get_github_api_response_def using nosearch
    by (simp only: if_False c prod.case sum.case get_json_from_url_def example_contents_url)
qed

lemma example_contents_first_page:
  assumes "\<not> py_eq_zero (last_api_requests_remaining_value s Core)"
    and "server ''https://api.github.com/repos/o/n/contents?&page=1&per_page=100'' (length (requests s))
           = Success page1"
    and "decoded page1 = Some jd"
  shows "get_github_api_response (example_world server)
           (contents_request example_repository) [] 1 s =
         (Inr (read_pages jd page1),
          note_rate_limit ''https://api.github.com/repos/o/n/contents?&page=1&per_page=100'' page1
            (s\<lparr>requests := requests s @
                 [''https://api.github.com/repos/o/n/contents?&page=1&per_page=100'']\<rparr>))"
  unfolding example_contents_request[OF assms(1)]
  by (subst get_json_from_url_loop.simps)
     (simp add: do_urlopen_def example_world_simps assms(2,3) urlopen_maximum_retries_def)







text \<open>
  Claim C9. In verify mode the result of \<open>find_library_folder\<close> is settled by the answer
  to the request for the first page of the root listing: two servers that agree on the
  descriptor files and on that first answer give the same result, whatever they answer
  for any later page, and the last request made is the one for the first page, also when
  that answer announces a next page.
\<close>

theorem verify_decision_from_first_page:
  assumes "parse_library_dot_properties w ''/'' repo row_list s = ((properties_found, row1), s1)"
    and "parse_library_dot_properties w' ''/'' repo row_list s = ((properties_found, row1), s1)"
    and "\<not> truthy properties_found"
    and "parse_library_dot_json w ''/'' repo row1 s1 = (Inr (False, row2), s2)"
    and "parse_library_dot_json w' ''/'' repo row1 s1 = (Inr (False, row2), s2)"
    and "get_github_api_response w (contents_request repo) [] 1 s2 = (res, s3)"
    and "get_github_api_response w' (contents_request repo) [] 1 s2 = (res, s3)"
  shows "find_library_folder w repo row_list True s = find_library_folder w' repo row_list True s
         \<and> (\<exists>out s'. find_library_folder w repo row_list True s = Some (out, s') \<and>
               requests s' = requests s3)"
proof -
  have a: "find_library_folder w repo row_list True s = scan_root w repo True 1 row2 s2"
    using assms(3) by (simp add: find_library_folder_def assms(1,4) del: One_nat_def)
  have b: "find_library_folder w' repo row_list True s = scan_root w' repo True 1 row2 s2"
    using assms(3) by (simp add: find_library_folder_def assms(2,5) del: One_nat_def)
  have c: "scan_root w repo True 1 row2 s2 = scan_root w' repo True 1 row2 s2"
    by (simp only: scan_root_verify[OF assms(6)] scan_root_verify[OF assms(7)])
  show ?thesis
    using scan_root_verify_requests[OF assms(6), of row2] by (simp add: a b c del: One_nat_def)
qed



theorem verify_decision_from_first_page_witness:
  "find_library_folder (example_world (example_contents_server (example_listing_reply [(''file'', ''a.h'')] True) (Success (example_listing_reply [(''file'', ''b.ino'')] False))))
     example_repository (replicate Column_count (JStr [])) True example_running_state
   = find_library_folder (example_world (example_contents_server (example_listing_reply [(''file'', ''a.h'')] True) (Failure 404 ''Not Found'')))
     example_repository (replicate Column_count (JStr [])) True example_running_state
   \<and> (\<exists>out s'. find_library_folder (example_world (example_contents_server (example_listing_reply [(''file'', ''a.h'')] True) (Success (example_listing_reply [(''file'', ''b.ino'')] False))))
     example_repository (replicate Column_count (JStr [])) True example_running_state = Some (out, s')
       \<and> requests s' =
           [''https://api.github.com/search/repositories?q=arduino&page=1&per_page=100'',
            ''https://raw.githubusercontent.com/o/n/m/library.properties'',
            ''https://raw.githubusercontent.com/o/n/m/library.json'',
            ''https://api.github.com/repos/o/n/contents?&page=1&per_page=100''])"
proof -
  have falsy: "\<not> truthy (JBool False)" by simp
  have pa: "parse_library_dot_properties (example_world (example_contents_server (example_listing_reply [(''file'', ''a.h'')] True) (Success (example_listing_reply [(''file'', ''b.ino'')] False)))) ''/'' example_repository (replicate Column_count (JStr [])) example_running_state =
      ((JBool False, (replicate Column_count (JStr []))), (example_running_state\<lparr>requests := requests example_running_state @ [''https://raw.githubusercontent.com/o/n/m/library.properties'']\<rparr>))"
    by (rule example_properties_absent) (simp add: example_contents_server_def)
  have ja: "parse_library_dot_json (example_world (example_contents_server (example_listing_reply [(''file'', ''a.h'')] True) (Success (example_listing_reply [(''file'', ''b.ino'')] False)))) ''/'' example_repository (replicate Column_count (JStr [])) (example_running_state\<lparr>requests := requests example_running_state @ [''https://raw.githubusercontent.com/o/n/m/library.properties'']\<rparr>) =
      (Inr (False, (replicate Column_count (JStr []))), ((example_running_state\<lparr>requests := requests example_running_state @ [''https://raw.githubusercontent.com/o/n/m/library.properties'']\<rparr>)\<lparr>requests := requests (example_running_state\<lparr>requests := requests example_running_state @ [''https://raw.githubusercontent.com/o/n/m/library.properties'']\<rparr>) @ [''https://raw.githubusercontent.com/o/n/m/library.json'']\<rparr>))"
    by (rule example_library_json_absent) (simp add: example_contents_server_def)
  have ca: "get_github_api_response (example_world (example_contents_server (example_listing_reply [(''file'', ''a.h'')] True) (Success (example_listing_reply [(''file'', ''b.ino'')] False)))) (contents_request example_repository) [] 1 ((example_running_state\<lparr>requests := requests example_running_state @ [''https://raw.githubusercontent.com/o/n/m/library.properties'']\<rparr>)\<lparr>requests := requests (example_running_state\<lparr>requests := requests example_running_state @ [''https://raw.githubusercontent.com/o/n/m/library.properties'']\<rparr>) @ [''https://raw.githubusercontent.com/o/n/m/library.json'']\<rparr>) =
      (Inr (read_pages (JArr [JObj [(''type'', JStr ''file''), (''name'', JStr ''a.h'')]]) (example_listing_reply [(''file'', ''a.h'')] True)),
       note_rate_limit ''https://api.github.com/repos/o/n/contents?&page=1&per_page=100'' (example_listing_reply [(''file'', ''a.h'')] True) (((example_running_state\<lparr>requests := requests example_running_state @ [''https://raw.githubusercontent.com/o/n/m/library.properties'']\<rparr>)\<lparr>requests := requests (example_running_state\<lparr>requests := requests example_running_state @ [''https://raw.githubusercontent.com/o/n/m/library.properties'']\<rparr>) @ [''https://raw.githubusercontent.com/o/n/m/library.json'']\<rparr>)\<lparr>requests := requests ((example_running_state\<lparr>requests := requests example_running_state @ [''https://raw.githubusercontent.com/o/n/m/library.properties'']\<rparr>)\<lparr>requests := requests (example_running_state\<lparr>requests := requests example_running_state @ [''https://raw.githubusercontent.com/o/n/m/library.properties'']\<rparr>) @ [''https://raw.githubusercontent.com/o/n/m/library.json'']\<rparr>) @ [''https://api.github.com/repos/o/n/contents?&page=1&per_page=100'']\<rparr>))"
    by (rule example_contents_first_page)
       (simp_all add: example_running_state_def example_listing_reply_def example_contents_server_def)
  have pb: "parse_library_dot_properties (example_world (example_contents_server (example_listing_reply [(''file'', ''a.h'')] True) (Failure 404 ''Not Found''))) ''/'' example_repository (replicate Column_count (JStr [])) example_running_state =
      ((JBool False, (replicate Column_count (JStr []))), (example_running_state\<lparr>requests := requests example_running_state @ [''https://raw.githubusercontent.com/o/n/m/library.properties'']\<rparr>))"
    by (rule example_properties_absent) (simp add: example_contents_server_def)
  have jb: "parse_library_dot_json (example_world (example_contents_server (example_listing_reply [(''file'', ''a.h'')] True) (Failure 404 ''Not Found''))) ''/'' example_repository (replicate Column_count (JStr [])) (example_running_state\<lparr>requests := requests example_running_state @ [''https://raw.githubusercontent.com/o/n/m/library.properties'']\<rparr>) =
      (Inr (False, (replicate Column_count (JStr []))), ((example_running_state\<lparr>requests := requests example_running_state @ [''https://raw.githubusercontent.com/o/n/m/library.properties'']\<rparr>)\<lparr>requests := requests (example_running_state\<lparr>requests := requests example_running_state @ [''https://raw.githubusercontent.com/o/n/m/library.properties'']\<rparr>) @ [''https://raw.githubusercontent.com/o/n/m/library.json'']\<rparr>))"
    by (rule example_library_json_absent) (simp add: example_contents_server_def)
  have cb: "get_github_api_response (example_world (example_contents_server (example_listing_reply [(''file'', ''a.h'')] True) (Failure 404 ''Not Found''))) (contents_request example_repository) [] 1 ((example_running_state\<lparr>requests := requests example_running_state @ [''https://raw.githubusercontent.com/o/n/m/library.properties'']\<rparr>)\<lparr>requests := requests (example_running_state\<lparr>requests := requests example_running_state @ [''https://raw.githubusercontent.com/o/n/m/library.properties'']\<rparr>) @ [''https://raw.githubusercontent.com/o/n/m/library.json'']\<rparr>) =
      (Inr (read_pages (JArr [JObj [(''type'', JStr ''file''), (''name'', JStr ''a.h'')]]) (example_listing_reply [(''file'', ''a.h'')] True)),
       note_rate_limit ''https://api.github.com/repos/o/n/contents?&page=1&per_page=100'' (example_listing_reply [(''file'', ''a.h'')] True) (((example_running_state\<lparr>requests := requests example_running_state @ [''https://raw.githubusercontent.com/o/n/m/library.properties'']\<rparr>)\<lparr>requests := requests (example_running_state\<lparr>requests := requests example_running_state @ [''https://raw.githubusercontent.com/o/n/m/library.properties'']\<rparr>) @ [''https://raw.githubusercontent.com/o/n/m/library.json'']\<rparr>)\<lparr>requests := requests ((example_running_state\<lparr>requests := requests example_running_state @ [''https://raw.githubusercontent.com/o/n/m/library.properties'']\<rparr>)\<lparr>requests := requests (example_running_state\<lparr>requests := requests example_running_state @ [''https://raw.githubusercontent.com/o/n/m/library.properties'']\<rparr>) @ [''https://raw.githubusercontent.com/o/n/m/library.json'']\<rparr>) @ [''https://api.github.com/repos/o/n/contents?&page=1&per_page=100'']\<rparr>))"
    by (rule example_contents_first_page)
       (simp_all add: example_running_state_def example_listing_reply_def example_contents_server_def)
  have rq: "requests (note_rate_limit ''https://api.github.com/repos/o/n/contents?&page=1&per_page=100'' (example_listing_reply [(''file'', ''a.h'')] True) (((example_running_state\<lparr>requests := requests example_running_state @ [''https://raw.githubusercontent.com/o/n/m/library.properties'']\<rparr>)\<lparr>requests := requests (example_running_state\<lparr>requests := requests example_running_state @ [''https://raw.githubusercontent.com/o/n/m/library.properties'']\<rparr>) @ [''https://raw.githubusercontent.com/o/n/m/library.json'']\<rparr>)\<lparr>requests := requests ((example_running_state\<lparr>requests := requests example_running_state @ [''https://raw.githubusercontent.com/o/n/m/library.properties'']\<rparr>)\<lparr>requests := requests (example_running_state\<lparr>requests := requests example_running_state @ [''https://raw.githubusercontent.com/o/n/m/library.properties'']\<rparr>) @ [''https://raw.githubusercontent.com/o/n/m/library.json'']\<rparr>) @ [''https://api.github.com/repos/o/n/contents?&page=1&per_page=100'']\<rparr>)) =
           [''https://api.github.com/search/repositories?q=arduino&page=1&per_page=100'',
            ''https://raw.githubusercontent.com/o/n/m/library.properties'',
            ''https://raw.githubusercontent.com/o/n/m/library.json'',
            ''https://api.github.com/repos/o/n/contents?&page=1&per_page=100'']"
    by (simp add: note_rate_limit_requests example_running_state_def)
  show ?thesis
    using verify_decision_from_first_page[OF pa pb falsy ja jb ca cb, unfolded rq] .
qed

section \<open>The catalog\<close>






























section \<open>One row for a repository\<close>


lemma preserves_value:
  "table s' = table s \<Longrightarrow> length row' = length row \<Longrightarrow> preserves s row (Inr (x, row'), s')"
  by (simp add: preserves_def)

lemma preserves_parts:
  "preserves s row (Inr (x, row'), s') \<Longrightarrow> table s' = table s \<and> length row' = length row"
  "preserves s row (r, s') \<Longrightarrow> table s' = table s"
  by (simp_all add: preserves_def)






















subsection \<open>A repository that verification rejects, fed twice\<close>


subsection \<open>A server that answers every request with 503\<close>















end
